theory Spec2Isabelle
  imports Main
begin

section \<open>Leveling system\<close>

text \<open>
  \<^verbatim>\<open>function xpForLevel(level) { return Math.floor(100 * Math.pow(1.5, level - 1)); }\<close>

  The value is the floor of the rational number \<open>100 * (3/2)^(level - 1)\<close>. It is
  computed here in exact integer arithmetic, for every integer level: a non-negative
  exponent divides by a power of two, a negative one by a power of three. The source
  computes in double precision: the product is exact there as long as
  \<open>25 * 3^(level - 1) < 2^53\<close>, that is up to level 31, and round-to-nearest
  arithmetic yields this same floor for every level up to 76, while the column \<open>xp\<close>
  is a 32-bit \<open>INTEGER\<close>, whose totals end before level 41.
\<close>

definition xpForLevel :: "int \<Rightarrow> int" where
  "xpForLevel level =
     (if 1 \<le> level then (100 * 3 ^ nat (level - 1)) div 2 ^ nat (level - 1)
      else (100 * 2 ^ nat (1 - level)) div 3 ^ nat (1 - level))"

lemma xpForLevel_nonneg: "0 \<le> xpForLevel level"
  by (simp add: xpForLevel_def pos_imp_zdiv_nonneg_iff)

lemma xpForLevel_ge_100:
  assumes "1 \<le> level"
  shows "100 \<le> xpForLevel level"
proof -
  define k where "k = nat (level - 1)"
  have "(2::int) ^ k \<le> 3 ^ k"
    by (rule power_mono) simp_all
  then have "100 * (2::int) ^ k \<le> 100 * 3 ^ k"
    by simp
  then have "(100 * (2::int) ^ k) div 2 ^ k \<le> (100 * 3 ^ k) div 2 ^ k"
    by (rule zdiv_mono1) simp
  then have "100 \<le> (100 * (3::int) ^ k) div 2 ^ k"
    by simp
  with assms show ?thesis
    by (simp add: xpForLevel_def k_def)
qed

text \<open>
  The loop of \<^verbatim>\<open>calculateLevel\<close>, on its three variables:
  \<^verbatim>\<open>
  while (xpAccumulated + xpNeeded <= totalXp) {
    xpAccumulated += xpNeeded;
    level++;
    xpNeeded = xpForLevel(level);
  }\<close>
\<close>

function calculateLevel_loop :: "int \<Rightarrow> int \<Rightarrow> int \<Rightarrow> int \<Rightarrow> int \<times> int \<times> int" where
  "calculateLevel_loop txp level xpNeeded xpAccumulated =
     (if xpAccumulated + xpNeeded \<le> txp
      then calculateLevel_loop txp (level + 1) (xpForLevel (level + 1)) (xpAccumulated + xpNeeded)
      else (level, xpNeeded, xpAccumulated))"
  by pat_completeness auto
termination
proof (relation "measures
    [\<lambda>(t, l, n, a). if n < 0 then 1 else 0,
     \<lambda>(t, l, n, a). nat (t - a),
     \<lambda>(t, l, n, a). nat (1 - l),
     \<lambda>(t, l, n, a). if n \<le> 0 then 1 else 0]")
  show "wf (measures
    [\<lambda>(t, l, n, a). if n < 0 then 1 else 0,
     \<lambda>(t, l, n, a). nat (t - a),
     \<lambda>(t, l, n, a). nat (1 - l),
     \<lambda>(t, l, n, a). if n \<le> (0::int) then 1 else 0] :: (int \<times> int \<times> int \<times> int) rel)"
    by simp
next
  fix txp level xpNeeded xpAccumulated :: int
  assume guard: "xpAccumulated + xpNeeded \<le> txp"
  have nn: "0 \<le> xpForLevel (level + 1)"
    by (rule xpForLevel_nonneg)
  have pos: "0 \<le> level \<Longrightarrow> 0 < xpForLevel (level + 1)"
    using xpForLevel_ge_100 [of "level + 1"] by simp
  show "((txp, level + 1, xpForLevel (level + 1), xpAccumulated + xpNeeded),
         (txp, level, xpNeeded, xpAccumulated)) \<in> measures
    [\<lambda>(t, l, n, a). if n < 0 then 1 else 0,
     \<lambda>(t, l, n, a). nat (t - a),
     \<lambda>(t, l, n, a). nat (1 - l),
     \<lambda>(t, l, n, a). if n \<le> 0 then 1 else 0]"
    using guard nn pos by (cases "xpNeeded < 0"; cases "xpNeeded = 0"; cases "0 \<le> level") auto
qed

text \<open>The number of times the loop body runs, counted along the same recursion.\<close>

function calculateLevel_iterations :: "int \<Rightarrow> int \<Rightarrow> int \<Rightarrow> int \<Rightarrow> nat" where
  "calculateLevel_iterations txp level xpNeeded xpAccumulated =
     (if xpAccumulated + xpNeeded \<le> txp
      then Suc (calculateLevel_iterations txp (level + 1) (xpForLevel (level + 1))
                  (xpAccumulated + xpNeeded))
      else 0)"
  by pat_completeness auto
termination
proof (relation "measures
    [\<lambda>(t, l, n, a). if n < 0 then 1 else 0,
     \<lambda>(t, l, n, a). nat (t - a),
     \<lambda>(t, l, n, a). nat (1 - l),
     \<lambda>(t, l, n, a). if n \<le> 0 then 1 else 0]")
  show "wf (measures
    [\<lambda>(t, l, n, a). if n < 0 then 1 else 0,
     \<lambda>(t, l, n, a). nat (t - a),
     \<lambda>(t, l, n, a). nat (1 - l),
     \<lambda>(t, l, n, a). if n \<le> (0::int) then 1 else 0] :: (int \<times> int \<times> int \<times> int) rel)"
    by simp
next
  fix txp level xpNeeded xpAccumulated :: int
  assume guard: "xpAccumulated + xpNeeded \<le> txp"
  have nn: "0 \<le> xpForLevel (level + 1)"
    by (rule xpForLevel_nonneg)
  have pos: "0 \<le> level \<Longrightarrow> 0 < xpForLevel (level + 1)"
    using xpForLevel_ge_100 [of "level + 1"] by simp
  show "((txp, level + 1, xpForLevel (level + 1), xpAccumulated + xpNeeded),
         (txp, level, xpNeeded, xpAccumulated)) \<in> measures
    [\<lambda>(t, l, n, a). if n < 0 then 1 else 0,
     \<lambda>(t, l, n, a). nat (t - a),
     \<lambda>(t, l, n, a). nat (1 - l),
     \<lambda>(t, l, n, a). if n \<le> 0 then 1 else 0]"
    using guard nn pos by (cases "xpNeeded < 0"; cases "xpNeeded = 0"; cases "0 \<le> level") auto
qed

record level_info =
  level :: int
  currentLevelXp :: int
  xpToNextLevel :: int
  totalXp :: int

definition calculateLevel :: "int \<Rightarrow> level_info" where
  "calculateLevel txp =
     (case calculateLevel_loop txp 1 (xpForLevel 1) 0 of
        (lv, xpNeeded, xpAccumulated) \<Rightarrow>
          \<lparr>level = lv, currentLevelXp = txp - xpAccumulated,
           xpToNextLevel = xpNeeded, totalXp = txp\<rparr>)"

text \<open>
  The totals a character's \<open>xp\<close> goes through when \<^verbatim>\<open>awardXp\<close> adds one amount after
  the other (\<^verbatim>\<open>const newXp = me.xp + amount\<close>), the starting total first.
\<close>

fun xp_totals :: "int \<Rightarrow> int list \<Rightarrow> int list" where
  "xp_totals x [] = [x]"
| "xp_totals x (a # as) = x # xp_totals (x + a) as"

declare calculateLevel_loop.simps [simp del]
declare calculateLevel_iterations.simps [simp del]

section \<open>Text and numbers as the server sees them\<close>

text \<open>
  Text is a list of characters, one element for each unit that \<^verbatim>\<open>length\<close> and
  \<^verbatim>\<open>slice\<close> of the source count. The emoji in the fixed messages of the source, which lie
  outside ASCII, are spelled by their UTF-8 bytes; no length is taken of those messages.

  The columns \<^verbatim>\<open>tick\<close>, \<^verbatim>\<open>last_action_tick\<close> and \<^verbatim>\<open>cooldown_until_tick\<close> are declared
  \<^verbatim>\<open>BIGINT\<close> by the schema. The source reads them through node-postgres and installs no
  type parser, so a \<^verbatim>\<open>BIGINT\<close> reaches the JavaScript code as its decimal string, while an
  \<^verbatim>\<open>INTEGER\<close> column reaches it as a number. A value the handlers compute with is
  therefore a number or a string, and \<^verbatim>\<open>+\<close>, \<^verbatim>\<open>-\<close> and \<^verbatim>\<open>>\<close> act on it as
  JavaScript defines them.
\<close>

datatype jsval = JNum int | JStr string

definition digit_char :: "nat \<Rightarrow> char" where
  "digit_char d = ''0123456789'' ! d"

definition digit_value :: "char \<Rightarrow> nat" where
  "digit_value c = of_char c - 48"

fun show_nat :: "nat \<Rightarrow> string" where
  "show_nat n = (if n < 10 then [digit_char n] else show_nat (n div 10) @ [digit_char (n mod 10)])"

declare show_nat.simps [simp del]

definition show_int :: "int \<Rightarrow> string" where
  "show_int i = (if i < 0 then ''-'' @ show_nat (nat (- i)) else show_nat (nat i))"

definition read_nat :: "string \<Rightarrow> nat" where
  "read_nat s = foldl (\<lambda>acc c. 10 * acc + digit_value c) 0 s"

text \<open>A \<^verbatim>\<open>BIGINT\<close> cell as the driver hands it over, and a query parameter stored into one.\<close>

definition pg_int8 :: "nat \<Rightarrow> jsval" where
  "pg_int8 n = JStr (show_nat n)"

text \<open>
  \<^verbatim>\<open>ToNumber\<close> and \<^verbatim>\<open>ToString\<close>. The only strings converted to numbers are decimal
  strings of ticks.
\<close>

fun to_number :: "jsval \<Rightarrow> int" where
  "to_number (JNum i) = i"
| "to_number (JStr s) = int (read_nat s)"

fun to_string :: "jsval \<Rightarrow> string" where
  "to_string (JNum i) = show_int i"
| "to_string (JStr s) = s"

definition to_int8 :: "jsval \<Rightarrow> nat" where
  "to_int8 v = nat (to_number v)"

text \<open>\<^verbatim>\<open>a + b\<close>: addition of two numbers, concatenation as soon as one side is a string.\<close>

fun js_plus :: "jsval \<Rightarrow> jsval \<Rightarrow> jsval" where
  "js_plus (JNum a) (JNum b) = JNum (a + b)"
| "js_plus a b = JStr (to_string a @ to_string b)"

text \<open>\<^verbatim>\<open>a - b\<close> converts both sides to numbers.\<close>

definition js_minus :: "jsval \<Rightarrow> jsval \<Rightarrow> int" where
  "js_minus a b = to_number a - to_number b"

text \<open>
  \<^verbatim>\<open>a > b\<close>: two strings are compared unit by unit, as strings; otherwise both sides
  are converted to numbers.
\<close>

fun str_gt :: "string \<Rightarrow> string \<Rightarrow> bool" where
  "str_gt [] t = False"
| "str_gt (c # s) [] = True"
| "str_gt (c # s) (d # t) = (if c = d then str_gt s t else (of_char d :: nat) < of_char c)"

fun js_gt :: "jsval \<Rightarrow> jsval \<Rightarrow> bool" where
  "js_gt (JStr s) (JStr t) = str_gt s t"
| "js_gt a b = (to_number b < to_number a)"

text \<open>
  \<^verbatim>\<open>toLowerCase\<close> and SQL \<^verbatim>\<open>LOWER\<close>, on the letters of ASCII. No character outside
  ASCII has one of the letters of \<^verbatim>\<open>north\<close>, \<^verbatim>\<open>south\<close>, \<^verbatim>\<open>east\<close>, \<^verbatim>\<open>west\<close> as its
  lower case.
\<close>

definition toLowerCase_char :: "char \<Rightarrow> char" where
  "toLowerCase_char c =
     (case map_of (zip ''ABCDEFGHIJKLMNOPQRSTUVWXYZ'' ''abcdefghijklmnopqrstuvwxyz'') c of
        Some l \<Rightarrow> l
      | None \<Rightarrow> c)"

definition toLowerCase :: "string \<Rightarrow> string" where
  "toLowerCase s = map toLowerCase_char s"

text \<open>\<^verbatim>\<open>s.includes(sub)\<close>.\<close>

fun starts_with :: "string \<Rightarrow> string \<Rightarrow> bool" where
  "starts_with s [] = True"
| "starts_with [] (p # ps) = False"
| "starts_with (c # s) (p # ps) = (c = p \<and> starts_with s ps)"

fun str_includes :: "string \<Rightarrow> string \<Rightarrow> bool" where
  "str_includes [] sub = (sub = [])"
| "str_includes (c # s) sub = (starts_with (c # s) sub \<or> str_includes s sub)"

text \<open>
  SQL \<^verbatim>\<open>s LIKE pattern\<close>: \<^verbatim>\<open>%\<close> stands for any run of characters, \<^verbatim>\<open>_\<close> for any one
  character, and a backslash makes the character after it literal.
\<close>

fun sql_like :: "string \<Rightarrow> string \<Rightarrow> bool" where
  "sql_like s [] = (s = [])"
| "sql_like s (p # ps) =
     (if p = CHR ''%'' then
        (case s of [] \<Rightarrow> sql_like [] ps | c # cs \<Rightarrow> sql_like (c # cs) ps \<or> sql_like cs (p # ps))
      else if p = CHR ''_'' then
        (case s of [] \<Rightarrow> False | c # cs \<Rightarrow> sql_like cs ps)
      else if p = CHR 0x5C then
        (case ps of
           [] \<Rightarrow> False
         | q # qs \<Rightarrow> (case s of [] \<Rightarrow> False | c # cs \<Rightarrow> c = q \<and> sql_like cs qs))
      else
        (case s of [] \<Rightarrow> False | c # cs \<Rightarrow> c = p \<and> sql_like cs ps))"

text \<open>\<^verbatim>\<open>xs.slice(-n)\<close>, the last \<open>n\<close> elements, and \<^verbatim>\<open>xs.join(sep)\<close>.\<close>

definition slice_last :: "nat \<Rightarrow> 'a list \<Rightarrow> 'a list" where
  "slice_last n xs = drop (length xs - n) xs"

fun join :: "string \<Rightarrow> string list \<Rightarrow> string" where
  "join sep [] = []"
| "join sep [s] = s"
| "join sep (s # t # ts) = s @ sep @ join sep (t # ts)"

section \<open>The stored world\<close>

text \<open>
  One record for each table row, with the columns the simulation reads or writes. A
  column that the source guards against \<^verbatim>\<open>NULL\<close> (with \<^verbatim>\<open>COALESCE\<close> or \<^verbatim>\<open>||\<close>) is an
  option. Ticks are stored as natural numbers: the counter starts at 0 and is only
  ever incremented.
\<close>

record moment =
  m_tick :: jsval
  m_category :: string
  m_moment :: string
  m_timestamp :: string

record character =
  c_id :: string
  c_token :: string
  c_name :: string
  c_x :: int
  c_y :: int
  c_hp :: int
  c_max_hp :: int
  c_xp :: int
  c_level :: int
  c_energy :: "int option"
  c_max_energy :: "int option"
  c_turn_interval :: int
  c_last_action_tick :: nat
  c_is_active :: bool
  c_life_story :: "string option"
  c_significant_moments :: "moment list option"
  c_last_seen_at :: string

record object =
  o_id :: string
  o_name :: string
  o_x :: int
  o_y :: int
  o_description :: "string option"
  o_can_interact :: bool
  o_interact_result :: "string option"
  o_blocking :: bool

record relationship =
  r_char1_id :: string
  r_char2_id :: string
  r_sentiment :: int
  r_interactions :: int
  r_first_met_tick :: nat
  r_last_interaction_tick :: nat
  r_recent_exchanges :: "int option"
  r_cooldown_until_tick :: "nat option"

record world_row =
  w_width :: int
  w_height :: int
  w_tick :: nat
  w_last_tick_at :: string
  w_is_night :: "bool option"
  w_day_length :: "int option"
  w_night_length :: "int option"

record log_entry =
  l_tick :: nat
  l_character_id :: "string option"
  l_action :: string
  l_message :: string

record memory =
  mem_character_id :: string
  mem_tick :: nat
  mem_content :: string

record conversation =
  cv_tick :: nat
  cv_speaker_id :: string
  cv_listener_id :: string
  cv_message :: string

text \<open>
  The database, a table being the list of its rows, and the names of the events sent
  to the viewers by \<^verbatim>\<open>broadcast\<close>, in the order sent.
\<close>

record state =
  world :: world_row
  characters :: "character list"
  objects :: "object list"
  relationships :: "relationship list"
  memories :: "memory list"
  conversations :: "conversation list"
  activity_log :: "log_entry list"
  broadcasts :: "string list"

definition get_char :: "state \<Rightarrow> string \<Rightarrow> character option" where
  "get_char st charId = find (\<lambda>c. c_id c = charId) (characters st)"

text \<open>\<^verbatim>\<open>UPDATE characters SET ... WHERE id = $1\<close>\<close>

definition update_char :: "string \<Rightarrow> (character \<Rightarrow> character) \<Rightarrow> state \<Rightarrow> state" where
  "update_char charId f st =
     st\<lparr>characters := map (\<lambda>c. if c_id c = charId then f c else c) (characters st)\<rparr>"

text \<open>\<^verbatim>\<open>INSERT INTO activity_log (tick, character_id, action, message)\<close>\<close>

definition insert_log :: "jsval \<Rightarrow> string option \<Rightarrow> string \<Rightarrow> string \<Rightarrow> state \<Rightarrow> state" where
  "insert_log tick charId act msg st =
     st\<lparr>activity_log := activity_log st @
        [\<lparr>l_tick = to_int8 tick, l_character_id = charId, l_action = act, l_message = msg\<rparr>]\<rparr>"

definition broadcast :: "string \<Rightarrow> state \<Rightarrow> state" where
  "broadcast event st = st\<lparr>broadcasts := broadcasts st @ [event]\<rparr>"

definition find_rel :: "state \<Rightarrow> string \<Rightarrow> string \<Rightarrow> relationship option" where
  "find_rel st a b = find (\<lambda>r. r_char1_id r = a \<and> r_char2_id r = b) (relationships st)"

text \<open>\<^verbatim>\<open>COALESCE(v, d)\<close>\<close>

definition coalesce :: "'a option \<Rightarrow> 'a \<Rightarrow> 'a" where
  "coalesce v d = (case v of None \<Rightarrow> d | Some a \<Rightarrow> a)"

text \<open>\<^verbatim>\<open>v || d\<close> on a number: \<^verbatim>\<open>null\<close> and 0 both give the default.\<close>

definition num_or :: "int option \<Rightarrow> int \<Rightarrow> int" where
  "num_or v d = (case v of None \<Rightarrow> d | Some a \<Rightarrow> if a = 0 then d else a)"

subsection \<open>\<^verbatim>\<open>awardXp\<close>\<close>

datatype xp_result =
    LeveledUp int int
  | NotLeveledUp int level_info
  | NoXp

fun xpGained :: "xp_result \<Rightarrow> int" where
  "xpGained (LeveledUp newLevel amount) = amount"
| "xpGained (NotLeveledUp amount info) = amount"
| "xpGained NoXp = 0"

definition party_popper :: string where
  "party_popper = [CHR 0xF0, CHR 0x9F, CHR 0x8E, CHR 0x89]"

definition awardXp :: "state \<Rightarrow> string \<Rightarrow> int \<Rightarrow> state \<times> xp_result option" where
  "awardXp st charId amount =
     (case get_char st charId of
        None \<Rightarrow> (st, None)
      | Some me \<Rightarrow>
          let oldLevel = c_level me;
              newXp = c_xp me + amount;
              levelInfo = calculateLevel newXp;
              st1 = update_char charId
                      (\<lambda>c. c\<lparr>c_xp := newXp, c_level := level levelInfo,
                              c_max_hp := 100 + (level levelInfo - 1) * 10\<rparr>) st
          in if level levelInfo > oldLevel then
               let tick = pg_int8 (w_tick (world st1));
                   msg = party_popper @ '' '' @ c_name me @ '' leveled up to ''
                           @ show_int (level levelInfo) @ ''!'';
                   st2 = insert_log tick (Some charId) ''level_up'' msg st1;
                   st3 = update_char charId (\<lambda>c. c\<lparr>c_hp := c_max_hp c\<rparr>) st2;
                   st4 = broadcast ''level_up'' st3
               in (st4, Some (LeveledUp (level levelInfo) amount))
             else (st1, Some (NotLeveledUp amount levelInfo)))"

text \<open>
  \<^verbatim>\<open>const XP_REWARDS = { move: 1, talk: 5, examine: 2, interact: 10, first_meeting: 20 }\<close>
\<close>

definition XP_REWARDS_move :: int where "XP_REWARDS_move = 1"
definition XP_REWARDS_talk :: int where "XP_REWARDS_talk = 5"
definition XP_REWARDS_examine :: int where "XP_REWARDS_examine = 2"
definition XP_REWARDS_interact :: int where "XP_REWARDS_interact = 10"
definition XP_REWARDS_first_meeting :: int where "XP_REWARDS_first_meeting = 20"

subsection \<open>\<^verbatim>\<open>addSignificantMoment\<close>\<close>

text \<open>
  The time stamp \<^verbatim>\<open>new Date().toISOString()\<close> is the argument \<open>now\<close>.
\<close>

text \<open>
  The list \<^verbatim>\<open>moments\<close> after the push and the cap:
  \<^verbatim>\<open>
  let moments = me.significant_moments || [];
  moments.push({ tick, category, moment, timestamp: new Date().toISOString() });
  if (moments.length > 50) { moments = moments.slice(-50); }\<close>
\<close>

definition pushed_moments ::
  "character \<Rightarrow> jsval \<Rightarrow> string \<Rightarrow> string \<Rightarrow> string \<Rightarrow> moment list" where
  "pushed_moments me tick mom category now =
     (let moments0 = coalesce (c_significant_moments me) [];
          moments1 = moments0 @
            [\<lparr>m_tick = tick, m_category = category, m_moment = mom, m_timestamp = now\<rparr>]
      in if length moments1 > 50 then slice_last 50 moments1 else moments1)"

text \<open>
  The text \<^verbatim>\<open>lifeStory\<close> after the periodic summary:
  \<^verbatim>\<open>
  let lifeStory = me.life_story || '';
  if (moments.length % 10 === 0) {
    const recentMoments = moments.slice(-10).map(m => m.moment).join('. ');
    lifeStory += `\n\n[After ${tick} ticks] ${recentMoments}`;
    if (lifeStory.length > 5000) { lifeStory = lifeStory.slice(-4000); }
  }\<close>
\<close>

definition summarised_lifeStory :: "character \<Rightarrow> jsval \<Rightarrow> moment list \<Rightarrow> string" where
  "summarised_lifeStory me tick moments =
     (let lifeStory0 = coalesce (c_life_story me) [] in
      if length moments mod 10 = 0 then
        let recentMoments = join ''. '' (map m_moment (slice_last 10 moments));
            appended = lifeStory0 @ [CHR 0x0A, CHR 0x0A] @ ''[After '' @ to_string tick
                         @ '' ticks] '' @ recentMoments
        in if length appended > 5000 then slice_last 4000 appended else appended
      else lifeStory0)"

definition addSignificantMoment ::
  "state \<Rightarrow> string \<Rightarrow> string \<Rightarrow> string \<Rightarrow> string \<Rightarrow> state" where
  "addSignificantMoment st charId mom category now =
     (let tick = pg_int8 (w_tick (world st)) in
      case get_char st charId of
        None \<Rightarrow> st
      | Some me \<Rightarrow>
          let moments = pushed_moments me tick mom category now;
              lifeStory = summarised_lifeStory me tick moments
          in update_char charId
               (\<lambda>c. c\<lparr>c_significant_moments := Some moments, c_life_story := Some lifeStory\<rparr>) st)"

text \<open>\<^verbatim>\<open>MOMENT_TRIGGERS.first_meeting\<close>\<close>

definition first_meeting :: "string \<Rightarrow> string" where
  "first_meeting name = ''Met '' @ name @ '' for the first time''"

subsection \<open>\<^verbatim>\<open>worldTick\<close>\<close>

text \<open>
  \<^verbatim>\<open>tick % n\<close> for a tick, which is never negative: no number when \<open>n\<close> is 0, and a
  comparison with no number is false.
\<close>

definition js_rem :: "jsval \<Rightarrow> int \<Rightarrow> int option" where
  "js_rem tick n = (if n = 0 then None else Some (to_number tick mod \<bar>n\<bar>))"





text \<open>
  \<^verbatim>\<open>UPDATE characters
  SET energy = LEAST(COALESCE(max_energy, 100), COALESCE(energy, 100) + 5)
  WHERE last_action_tick < $1 - 20\<close>
\<close>

definition regenerate_energy :: "jsval \<Rightarrow> state \<Rightarrow> state" where
  "regenerate_energy tick st =
     st\<lparr>characters :=
        map (\<lambda>c. if int (c_last_action_tick c) < to_number tick - 20
                  then c\<lparr>c_energy := Some (min (coalesce (c_max_energy c) 100)
                                               (coalesce (c_energy c) 100 + 5))\<rparr>
                  else c)
            (characters st)\<rparr>"

text \<open>
  \<^verbatim>\<open>UPDATE relationships
  SET recent_exchanges = GREATEST(0, recent_exchanges - 3)
  WHERE recent_exchanges > 0\<close>
\<close>

definition decay_exchanges :: "state \<Rightarrow> state" where
  "decay_exchanges st =
     st\<lparr>relationships :=
        map (\<lambda>r. case r_recent_exchanges r of
                    None \<Rightarrow> r
                  | Some n \<Rightarrow> if n > 0 then r\<lparr>r_recent_exchanges := Some (max 0 (n - 3))\<rparr> else r)
            (relationships st)\<rparr>"


subsection \<open>The turn gate\<close>

definition canAct :: "state \<Rightarrow> string \<Rightarrow> bool" where
  "canAct st charId =
     (case get_char st charId of
        None \<Rightarrow> False
      | Some c \<Rightarrow>
          js_minus (pg_int8 (w_tick (world st))) (pg_int8 (c_last_action_tick c)) \<ge> c_turn_interval c)"

definition updateLastAction :: "state \<Rightarrow> string \<Rightarrow> string \<Rightarrow> state" where
  "updateLastAction st charId now =
     update_char charId
       (\<lambda>c. c\<lparr>c_last_action_tick := to_int8 (pg_int8 (w_tick (world st))), c_last_seen_at := now\<rparr>) st"

section \<open>The action processor\<close>

text \<open>The body of a request to \<^verbatim>\<open>POST /api/action/:charId\<close>; a field may be absent.\<close>

record request =
  q_action :: "string option"
  q_direction :: "string option"
  q_target :: "string option"
  q_message :: "string option"

text \<open>
  The rejections, one for each early \<^verbatim>\<open>return res.status(...)\<close> of the handler, with the
  data the answer carries.
\<close>

datatype rejection =
    InvalidCharacterOrToken
  | NotYourTurn int
  | InvalidDirection
  | OutOfBounds
  | Blocked string
  | MessageRequired
  | InsufficientEnergy int
  | NoTargetNearby
  | ConversationCooldown int
  | NothingToExamine "string option"
  | CannotInteract "string option"
  | UnknownActionKind

record talk_result =
  t_message :: string
  t_listener :: string
  t_xp :: "xp_result option"
  t_energy :: int
  t_exchangeCount :: int
  t_fatigueWarning :: "string option"
  t_cooldownIn :: int

datatype outcome =
    Moved string int int
  | Talked talk_result
  | TalkedSimple string string "xp_result option"
  | Examined object "string option"
  | Rested string int "int option" "int option" "xp_result option"
  | Interacted string "string option" "xp_result option"

datatype response = Rejected rejection | Accepted outcome

subsection \<open>\<^verbatim>\<open>case 'move'\<close>\<close>

definition dirs :: "string \<Rightarrow> (int \<times> int) option" where
  "dirs = map_of [(''north'', (0, -1)), (''south'', (0, 1)), (''east'', (1, 0)), (''west'', (-1, 0))]"

definition action_move ::
  "state \<Rightarrow> character \<Rightarrow> jsval \<Rightarrow> int \<Rightarrow> int \<Rightarrow> string option \<Rightarrow> state \<times> (rejection + outcome)" where
  "action_move st me tick width height direction =
     (case (case direction of None \<Rightarrow> None | Some d \<Rightarrow> dirs (toLowerCase d)) of
        None \<Rightarrow> (st, Inl InvalidDirection)
      | Some delta \<Rightarrow>
          let newX = c_x me + fst delta;
              newY = c_y me + snd delta
          in if newX < 0 \<or> newX \<ge> width \<or> newY < 0 \<or> newY \<ge> height then (st, Inl OutOfBounds)
             else
               (case filter (\<lambda>ob. o_x ob = newX \<and> o_y ob = newY \<and> o_blocking ob) (objects st) of
                  b # bs \<Rightarrow> (st, Inl (Blocked (o_name b)))
                | [] \<Rightarrow>
                    let st1 = update_char (c_id me) (\<lambda>c. c\<lparr>c_x := newX, c_y := newY\<rparr>) st;
                        msg = c_name me @ '' moves '' @ coalesce direction [];
                        st2 = insert_log tick (Some (c_id me)) ''move'' msg st1;
                        st3 = broadcast ''move'' st2;
                        st4 = fst (awardXp st3 (c_id me) XP_REWARDS_move)
                    in (st4, Inr (Moved msg newX newY))))"

subsection \<open>\<^verbatim>\<open>case 'talk'\<close>\<close>

text \<open>
  \<^verbatim>\<open>SELECT id, name FROM characters
  WHERE id != $1 AND is_active = true AND ABS(x - $2) <= 2 AND ABS(y - $3) <= 2
  ORDER BY SQRT(POWER(x - $2, 2) + POWER(y - $3, 2)) LIMIT 1\<close>

  The square root keeps the order of the squared distances, so the rows are ordered by
  those. Among rows at the same distance SQL leaves the order open; the first of them
  in the table is taken here.
\<close>

definition sq_dist :: "int \<Rightarrow> int \<Rightarrow> character \<Rightarrow> int" where
  "sq_dist mx my c = (c_x c - mx)\<^sup>2 + (c_y c - my)\<^sup>2"

fun first_least :: "('a \<Rightarrow> int) \<Rightarrow> 'a list \<Rightarrow> 'a option" where
  "first_least d [] = None"
| "first_least d (c # cs) =
     (case first_least d cs of
        None \<Rightarrow> Some c
      | Some b \<Rightarrow> if d c \<le> d b then Some c else Some b)"

definition talk_candidate :: "string \<Rightarrow> int \<Rightarrow> int \<Rightarrow> character \<Rightarrow> bool" where
  "talk_candidate charId mx my c \<longleftrightarrow>
     c_id c \<noteq> charId \<and> c_is_active c \<and> \<bar>c_x c - mx\<bar> \<le> 2 \<and> \<bar>c_y c - my\<bar> \<le> 2"

definition nearby_listener :: "state \<Rightarrow> string \<Rightarrow> int \<Rightarrow> int \<Rightarrow> character option" where
  "nearby_listener st charId mx my =
     first_least (sq_dist mx my) (filter (talk_candidate charId mx my) (characters st))"

text \<open>
  \<^verbatim>\<open>INSERT INTO relationships (...) VALUES ($1, $2, 5, 1, $3, $3, 1, 0)
  ON CONFLICT (char1_id, char2_id) DO UPDATE SET
    interactions = relationships.interactions + 1,
    sentiment = LEAST(100, relationships.sentiment + 1),
    last_interaction_tick = $3, recent_exchanges = $4, cooldown_until_tick = $5\<close>
\<close>

definition upsert_relationship ::
  "string \<Rightarrow> string \<Rightarrow> jsval \<Rightarrow> int \<Rightarrow> jsval \<Rightarrow> state \<Rightarrow> state" where
  "upsert_relationship a b tick newExchangeCount newCooldown st =
     (case find_rel st a b of
        None \<Rightarrow>
          st\<lparr>relationships := relationships st @
            [\<lparr>r_char1_id = a, r_char2_id = b, r_sentiment = 5, r_interactions = 1,
              r_first_met_tick = to_int8 tick, r_last_interaction_tick = to_int8 tick,
              r_recent_exchanges = Some 1, r_cooldown_until_tick = Some 0\<rparr>]\<rparr>
      | Some existing \<Rightarrow>
          st\<lparr>relationships :=
            map (\<lambda>r. if r_char1_id r = a \<and> r_char2_id r = b
                      then r\<lparr>r_interactions := r_interactions r + 1,
                             r_sentiment := min 100 (r_sentiment r + 1),
                             r_last_interaction_tick := to_int8 tick,
                             r_recent_exchanges := Some newExchangeCount,
                             r_cooldown_until_tick := Some (to_int8 newCooldown)\<rparr>
                      else r)
                (relationships st)\<rparr>)"

definition insert_conversation :: "jsval \<Rightarrow> string \<Rightarrow> string \<Rightarrow> string \<Rightarrow> state \<Rightarrow> state" where
  "insert_conversation tick speaker listener msg st =
     st\<lparr>conversations := conversations st @
        [\<lparr>cv_tick = to_int8 tick, cv_speaker_id = speaker, cv_listener_id = listener,
          cv_message = msg\<rparr>]\<rparr>"

definition insert_memory :: "string \<Rightarrow> jsval \<Rightarrow> string \<Rightarrow> state \<Rightarrow> state" where
  "insert_memory charId tick content st =
     st\<lparr>memories := memories st @
        [\<lparr>mem_character_id = charId, mem_tick = to_int8 tick, mem_content = content\<rparr>]\<rparr>"

definition quoted :: "string \<Rightarrow> string" where
  "quoted s = [CHR 0x22] @ s @ [CHR 0x22]"

text \<open>
  The diminishing rewards:
  \<^verbatim>\<open>
  if (isFirstMeeting) { xpReward = XP_REWARDS.first_meeting; }
  else if (newExchangeCount <= 5) { xpReward = XP_REWARDS.talk; }
  else if (newExchangeCount <= 10) { xpReward = 2; }
  else { xpReward = 0; }\<close>
\<close>

definition talk_xpReward :: "bool \<Rightarrow> int \<Rightarrow> int" where
  "talk_xpReward isFirstMeeting newExchangeCount =
     (if isFirstMeeting then XP_REWARDS_first_meeting
      else if newExchangeCount \<le> 5 then XP_REWARDS_talk
      else if newExchangeCount \<le> 10 then 2
      else 0)"

text \<open>
  The fatigue of the ordered pair, as read before the talk:
  \<^verbatim>\<open>
  let recentExchanges = 0; let cooldownUntil = 0;
  if (relCheck.rows.length > 0) {
    recentExchanges = relCheck.rows[0].recent_exchanges || 0;
    cooldownUntil = relCheck.rows[0].cooldown_until_tick || 0;
  }\<close>
  The exchange count is an \<^verbatim>\<open>INTEGER\<close>, a number; the cooldown tick is a \<^verbatim>\<open>BIGINT\<close>, a
  string whenever the row has one (a string of digits is never empty, so \<^verbatim>\<open>||\<close> keeps
  it, also \<^verbatim>\<open>"0"\<close>).
\<close>

definition talk_recentExchanges :: "state \<Rightarrow> string \<Rightarrow> string \<Rightarrow> int" where
  "talk_recentExchanges st a b =
     (case find_rel st a b of None \<Rightarrow> 0 | Some r \<Rightarrow> num_or (r_recent_exchanges r) 0)"

definition talk_cooldownUntil :: "state \<Rightarrow> string \<Rightarrow> string \<Rightarrow> jsval" where
  "talk_cooldownUntil st a b =
     (case find_rel st a b of
        None \<Rightarrow> JNum 0
      | Some r \<Rightarrow> (case r_cooldown_until_tick r of None \<Rightarrow> JNum 0 | Some t \<Rightarrow> pg_int8 t))"

text \<open>
  \<^verbatim>\<open>const newCooldown = newExchangeCount >= 15 ? tick + 30 : 0;\<close>
\<close>

definition talk_newCooldown :: "jsval \<Rightarrow> int \<Rightarrow> jsval" where
  "talk_newCooldown tick newExchangeCount =
     (if newExchangeCount \<ge> 15 then js_plus tick (JNum 30) else JNum 0)"

text \<open>
  The part of the case after its checks, in two steps. First the rows written before
  the reward: the energy of the speaker, the conversation, the two memories, the
  relationship and, at a first meeting, a moment for each of the two. The step also
  yields \<^verbatim>\<open>isFirstMeeting\<close>, read from the table before the relationship is written.
\<close>

definition talk_records ::
  "state \<Rightarrow> character \<Rightarrow> character \<Rightarrow> jsval \<Rightarrow> string \<Rightarrow> int \<Rightarrow> string \<Rightarrow> state \<times> bool" where
  "talk_records st me listener tick msgText newExchangeCount now =
     (let energyCost = 3;
          st1 = update_char (c_id me)
                  (\<lambda>c. c\<lparr>c_energy := Some (coalesce (c_energy c) 100 - energyCost)\<rparr>) st;
          st2 = insert_conversation tick (c_id me) (c_id listener) msgText st1;
          st3 = insert_memory (c_id me) tick
                  (''I said to '' @ c_name listener @ '': '' @ quoted msgText) st2;
          st4 = insert_memory (c_id listener) tick
                  (c_name me @ '' said to me: '' @ quoted msgText) st3;
          isFirstMeeting = (find_rel st4 (c_id me) (c_id listener) = None);
          newCooldown = talk_newCooldown tick newExchangeCount;
          st5 = upsert_relationship (c_id me) (c_id listener) tick newExchangeCount newCooldown st4;
          st6 = (if isFirstMeeting then
                   addSignificantMoment
                     (addSignificantMoment st5 (c_id me)
                        (first_meeting (c_name listener)) ''social'' now)
                     (c_id listener) (first_meeting (c_name me)) ''social'' now
                 else st5)
      in (st6, isFirstMeeting))"

text \<open>Then the reward, the log, the broadcast and the answer.\<close>

definition talk_effects ::
  "state \<Rightarrow> character \<Rightarrow> character \<Rightarrow> jsval \<Rightarrow> string \<Rightarrow> string \<Rightarrow> state \<times> outcome" where
  "talk_effects st me listener tick msgText now =
     (let currentEnergy = num_or (c_energy me) 100;
          energyCost = 3;
          recentExchanges = talk_recentExchanges st (c_id me) (c_id listener);
          newExchangeCount = recentExchanges + 1;
          newCooldown = talk_newCooldown tick newExchangeCount;
          recorded = talk_records st me listener tick msgText newExchangeCount now;
          st6 = fst recorded;
          isFirstMeeting = snd recorded;
          xpReward = talk_xpReward isFirstMeeting newExchangeCount;
          awarded = (if xpReward > 0 then awardXp st6 (c_id me) xpReward else (st6, Some NoXp));
          msg = c_name me @ '' says to '' @ c_name listener @ '': '' @ quoted msgText;
          st8 = insert_log tick (Some (c_id me)) ''talk'' msg (fst awarded);
          st9 = broadcast ''talk'' st8;
          fatigueWarning =
            (if newExchangeCount \<ge> 12 then
               Some (''You've been talking to '' @ c_name listener
                     @ '' for a while. Consider exploring elsewhere soon!'')
             else if newExchangeCount \<ge> 8 then
               Some ''Conversation getting long. XP rewards diminishing.''
             else None)
      in (st9, Talked
            \<lparr>t_message = msg, t_listener = c_name listener, t_xp = snd awarded,
             t_energy = currentEnergy - energyCost,
             t_exchangeCount = newExchangeCount,
             t_fatigueWarning = fatigueWarning,
             t_cooldownIn = (if js_gt newCooldown (JNum 0) then 0 else 15 - newExchangeCount)\<rparr>))"

text \<open>
  The checks of the case, in the order of the source: the message, the energy, the
  listener, the cooldown.
\<close>

definition action_talk ::
  "state \<Rightarrow> character \<Rightarrow> jsval \<Rightarrow> string option \<Rightarrow> string \<Rightarrow> state \<times> (rejection + outcome)" where
  "action_talk st me tick message now =
     (if message = None \<or> message = Some [] then (st, Inl MessageRequired)
      else
        let currentEnergy = num_or (c_energy me) 100;
            energyCost = 3
        in if currentEnergy < energyCost then (st, Inl (InsufficientEnergy currentEnergy))
           else
             (case nearby_listener st (c_id me) (c_x me) (c_y me) of
                None \<Rightarrow> (st, Inl NoTargetNearby)
              | Some listener \<Rightarrow>
                  let cooldownUntil = talk_cooldownUntil st (c_id me) (c_id listener)
                  in if js_gt cooldownUntil tick
                     then (st, Inl (ConversationCooldown (js_minus cooldownUntil tick)))
                     else
                       let done = talk_effects st me listener tick (coalesce message []) now
                       in (fst done, Inr (snd done))))"

subsection \<open>\<^verbatim>\<open>case 'examine'\<close>\<close>

text \<open>
  \<^verbatim>\<open>SELECT * FROM objects
  WHERE (LOWER(name) LIKE $1 OR LOWER(id) LIKE $1) AND ABS(x - $2) <= r AND ABS(y - $3) <= r
  LIMIT 1\<close> with the parameter \<^verbatim>\<open>`%${(target || '').toLowerCase()}%`\<close>. No order is
  asked for; the first matching row of the table is taken.
\<close>

definition target_pattern :: "string option \<Rightarrow> string" where
  "target_pattern target = ''%'' @ toLowerCase (coalesce target []) @ ''%''"

definition object_matches :: "string option \<Rightarrow> int \<Rightarrow> character \<Rightarrow> object \<Rightarrow> bool" where
  "object_matches target r me ob =
     ((sql_like (toLowerCase (o_name ob)) (target_pattern target)
         \<or> sql_like (toLowerCase (o_id ob)) (target_pattern target))
      \<and> \<bar>o_x ob - c_x me\<bar> \<le> r \<and> \<bar>o_y ob - c_y me\<bar> \<le> r)"

text \<open>
  The two servers have the same text for this case: the query, the rejection, the result
  and one row added to the activity log.
\<close>

definition action_examine ::
  "state \<Rightarrow> character \<Rightarrow> jsval \<Rightarrow> string option \<Rightarrow> state \<times> (rejection + outcome)" where
  "action_examine st me tick target =
     (case filter (object_matches target 3 me) (objects st) of
        [] \<Rightarrow> (st, Inl (NothingToExamine target))
      | ob # obs \<Rightarrow>
          (insert_log tick (Some (c_id me)) ''examine''
             (c_name me @ '' examines the '' @ o_name ob) st,
           Inr (Examined ob (o_description ob))))"

subsection \<open>\<^verbatim>\<open>case 'interact'\<close>\<close>

definition isRestSpot :: "object \<Rightarrow> bool" where
  "isRestSpot ob =
     (str_includes (toLowerCase (o_name ob)) ''campfire''
      \<or> str_includes (toLowerCase (o_name ob)) ''cottage''
      \<or> str_includes (toLowerCase (o_name ob)) ''pond'')"

definition action_interact ::
  "state \<Rightarrow> character \<Rightarrow> jsval \<Rightarrow> string option \<Rightarrow> state \<times> (rejection + outcome)" where
  "action_interact st me tick target =
     (case filter (\<lambda>ob. object_matches target 2 me ob \<and> o_can_interact ob) (objects st) of
        [] \<Rightarrow> (st, Inl (CannotInteract target))
      | ob # obs \<Rightarrow>
          if isRestSpot ob then
            let energyRestored = (if str_includes (toLowerCase (o_name ob)) ''cottage'' then 50 else 30);
                st1 = update_char (c_id me)
                        (\<lambda>c. c\<lparr>c_energy := Some (min (coalesce (c_max_energy c) 100)
                                                    (coalesce (c_energy c) 0 + energyRestored))\<rparr>) st;
                newEnergy = get_char st1 (c_id me);
                st2 = insert_log tick (Some (c_id me)) ''rest''
                        (c_name me @ '' rests at the '' @ o_name ob @ '' and recovers energy'') st1;
                st3 = broadcast ''rest'' st2;
                awarded = awardXp st3 (c_id me) 2
            in (fst awarded,
                Inr (Rested (o_name ob) energyRestored
                       (case newEnergy of None \<Rightarrow> None | Some c \<Rightarrow> c_energy c)
                       (case newEnergy of None \<Rightarrow> None | Some c \<Rightarrow> c_max_energy c)
                       (snd awarded)))
          else
            let awarded = awardXp st (c_id me) XP_REWARDS_interact;
                st2 = insert_log tick (Some (c_id me)) ''interact''
                        (c_name me @ '' interacts with the '' @ o_name ob) (fst awarded);
                st3 = broadcast ''interact'' st2
            in (st3, Inr (Interacted (o_name ob) (o_interact_result ob) (snd awarded))))"

subsection \<open>The handler of \<^verbatim>\<open>POST /api/action/:charId\<close>, server with energy and fatigue\<close>

definition authenticate :: "state \<Rightarrow> string \<Rightarrow> string \<Rightarrow> character option" where
  "authenticate st charId token = find (\<lambda>c. c_id c = charId \<and> c_token c = token) (characters st)"

definition submit_action ::
  "state \<Rightarrow> string \<Rightarrow> string \<Rightarrow> request \<Rightarrow> string \<Rightarrow> state \<times> response" where
  "submit_action st charId token req now =
     (case authenticate st charId token of
        None \<Rightarrow> (st, Rejected InvalidCharacterOrToken)
      | Some me \<Rightarrow>
          if \<not> canAct st charId then (st, Rejected (NotYourTurn (c_turn_interval me)))
          else
            let width = w_width (world st);
                height = w_height (world st);
                tick = pg_int8 (w_tick (world st));
                handled =
                  (if q_action req = Some ''move'' then
                     action_move st me tick width height (q_direction req)
                   else if q_action req = Some ''talk'' then
                     action_talk st me tick (q_message req) now
                   else if q_action req = Some ''examine'' then
                     action_examine st me tick (q_target req)
                   else if q_action req = Some ''interact'' then
                     action_interact st me tick (q_target req)
                   else (st, Inl UnknownActionKind))
            in (case snd handled of
                  Inl rejection \<Rightarrow> (fst handled, Rejected rejection)
                | Inr result \<Rightarrow> (updateLastAction (fst handled) charId now, Accepted result)))"

section \<open>The server without energy and fatigue\<close>






section \<open>A small world to run the handlers on\<close>

text \<open>
  Two characters and two of the default objects of the schema, at tick 150 of a world of
  20 by 15 tiles. Ada stands one tile north of the river; Bob is out of her reach.
\<close>

definition ex_ada :: character where
  "ex_ada = \<lparr>c_id = ''ada-1'', c_token = ''ta'', c_name = ''Ada'', c_x = 3, c_y = 9,
     c_hp = 100, c_max_hp = 100, c_xp = 0, c_level = 1, c_energy = Some 100,
     c_max_energy = Some 100, c_turn_interval = 1, c_last_action_tick = 120,
     c_is_active = True, c_life_story = Some [], c_significant_moments = Some [],
     c_last_seen_at = ''2026-01-01T00:00:00.000Z''\<rparr>"

definition ex_bob :: character where
  "ex_bob = \<lparr>c_id = ''bob-2'', c_token = ''tb'', c_name = ''Bob'', c_x = 5, c_y = 11,
     c_hp = 100, c_max_hp = 100, c_xp = 0, c_level = 1, c_energy = Some 100,
     c_max_energy = Some 100, c_turn_interval = 1, c_last_action_tick = 130,
     c_is_active = True, c_life_story = Some [], c_significant_moments = Some [],
     c_last_seen_at = ''2026-01-01T00:00:00.000Z''\<rparr>"

definition ex_river4 :: object where
  "ex_river4 = \<lparr>o_id = ''river4'', o_name = ''River'', o_x = 3, o_y = 10,
     o_description = Some ''A river flows from west to east.'', o_can_interact = False,
     o_interact_result = None, o_blocking = True\<rparr>"

definition ex_pine :: object where
  "ex_pine = \<lparr>o_id = ''tree1'', o_name = ''Old Pine'', o_x = 3, o_y = 7,
     o_description = Some ''A towering pine tree with thick bark. Birds nest above.'',
     o_can_interact = True, o_interact_result = Some ''You shake the tree. A pinecone falls.'',
     o_blocking = False\<rparr>"

definition ex_world :: world_row where
  "ex_world = \<lparr>w_width = 20, w_height = 15, w_tick = 150,
     w_last_tick_at = ''2026-01-01T00:00:00.000Z'', w_is_night = Some False,
     w_day_length = Some 200, w_night_length = Some 50\<rparr>"

definition ex_state :: state where
  "ex_state = \<lparr>world = ex_world, characters = [ex_ada, ex_bob], objects = [ex_river4, ex_pine],
     relationships = [], memories = [], conversations = [], activity_log = [], broadcasts = []\<rparr>"

definition ex_talk :: request where
  "ex_talk = \<lparr>q_action = Some ''talk'', q_direction = None, q_target = None,
     q_message = Some ''Hello''\<rparr>"

definition ex_examine :: request where
  "ex_examine = \<lparr>q_action = Some ''examine'', q_direction = None, q_target = Some ''Pine'',
     q_message = None\<rparr>"




text \<open>
  The same world after Ada has talked to Bob forty times: the row of the ordered pair,
  with its count of recent exchanges \<open>n\<close> (which the world clock lowers while they rest,
  so that it differs from the count of all their interactions).
\<close>

definition ex_known :: "int option \<Rightarrow> state" where
  "ex_known n = ex_state\<lparr>relationships :=
     [\<lparr>r_char1_id = ''ada-1'', r_char2_id = ''bob-2'', r_sentiment = 45, r_interactions = 40,
       r_first_met_tick = 100, r_last_interaction_tick = 140, r_recent_exchanges = n,
       r_cooldown_until_tick = Some 0\<rparr>]\<rparr>"

text \<open>The answer to Ada's \<^verbatim>\<open>Hello\<close> to Bob, with its variable parts.\<close>

definition ex_talked :: "xp_result option \<Rightarrow> int \<Rightarrow> string option \<Rightarrow> int \<Rightarrow> response" where
  "ex_talked xp n warning cooldownIn = Accepted (Talked
     \<lparr>t_message = ''Ada says to Bob: '' @ quoted ''Hello'', t_listener = ''Bob'', t_xp = xp,
      t_energy = 97, t_exchangeCount = n, t_fatigueWarning = warning, t_cooldownIn = cooldownIn\<rparr>)"

text \<open>
  A character with a long past: Ada with fifty numbered moments and a life story ten
  units below its cap.
\<close>

definition ex_moment :: "nat \<Rightarrow> moment" where
  "ex_moment i = \<lparr>m_tick = JStr (show_nat i), m_category = ''general'',
     m_moment = ''Moment '' @ show_nat i, m_timestamp = ''2026-01-01T00:00:00.000Z''\<rparr>"

definition ex_veteran_ada :: character where
  "ex_veteran_ada = ex_ada\<lparr>c_significant_moments := Some (map ex_moment [1..<51]),
     c_life_story := Some (replicate 4990 CHR ''x'')\<rparr>"

definition ex_veteran :: state where
  "ex_veteran = ex_state\<lparr>characters := [ex_veteran_ada, ex_bob]\<rparr>"

text \<open>
  The moment of her meeting Bob at tick 150, and the summary that the fiftieth moment of
  a list brings to the life story.
\<close>

definition ex_met_bob :: moment where
  "ex_met_bob = \<lparr>m_tick = JStr ''150'', m_category = ''social'',
     m_moment = ''Met Bob for the first time'', m_timestamp = ''2026-01-01T00:12:30.000Z''\<rparr>"

definition ex_summary :: string where
  "ex_summary = [CHR 0x0A, CHR 0x0A] @ ''[After 150 ticks] Moment 42. Moment 43. Moment 44. Moment 45. Moment 46. Moment 47. Moment 48. Moment 49. Moment 50. Met Bob for the first time''"

section \<open>Sequences of calls and the caps of the life story\<close>

text \<open>
  The states after each call of a sequence of calls of \<open>addSignificantMoment\<close>, each call
  given by its arguments and its time stamp.
\<close>

fun add_moments :: "state \<Rightarrow> (string \<times> string \<times> string \<times> string) list \<Rightarrow> state list" where
  "add_moments st [] = []"
| "add_moments st ((charId, mom, category, now) # calls) =
     addSignificantMoment st charId mom category now
       # add_moments (addSignificantMoment st charId mom category now) calls"

text \<open>The two caps: at most 50 moments, and a life story of at most 5000 units.\<close>

definition story_within_caps :: "character \<Rightarrow> bool" where
  "story_within_caps c \<longleftrightarrow>
     length (coalesce (c_significant_moments c) []) \<le> 50
     \<and> length (coalesce (c_life_story c) []) \<le> 5000"

text \<open>Ten moments for Ada, one after the other.\<close>

definition ex_calls :: "(string \<times> string \<times> string \<times> string) list" where
  "ex_calls = replicate 10 (''ada-1'', first_meeting ''Bob'', ''social'', ''2026-01-01T00:12:30.000Z'')"

section \<open>Properties of the leveling system\<close>

lemma calculateLevel_loop_level_ge:
  "l \<le> fst (calculateLevel_loop t l n a)"
proof (induction t l n a rule: calculateLevel_loop.induct)
  case (1 t l n a)
  show ?case
  proof (cases "a + n \<le> t")
    case True
    with "1.IH" have "l + 1 \<le> fst (calculateLevel_loop t (l + 1) (xpForLevel (l + 1)) (a + n))"
      by simp
    with True show ?thesis
      by (subst calculateLevel_loop.simps) simp
  next
    case False
    then show ?thesis
      by (subst calculateLevel_loop.simps) simp
  qed
qed

lemma calculateLevel_loop_mono:
  "t \<le> t' \<Longrightarrow> fst (calculateLevel_loop t l n a) \<le> fst (calculateLevel_loop t' l n a)"
proof (induction t l n a rule: calculateLevel_loop.induct)
  case (1 t l n a)
  show ?case
  proof (cases "a + n \<le> t")
    case True
    with "1.prems" have g': "a + n \<le> t'" by simp
    have "fst (calculateLevel_loop t (l + 1) (xpForLevel (l + 1)) (a + n))
        \<le> fst (calculateLevel_loop t' (l + 1) (xpForLevel (l + 1)) (a + n))"
      using "1.IH" True "1.prems" by simp
    then show ?thesis
      using True g'
      by (subst calculateLevel_loop.simps, subst (2) calculateLevel_loop.simps) simp
  next
    case False
    then have "fst (calculateLevel_loop t l n a) = l"
      by (subst calculateLevel_loop.simps) simp
    then show ?thesis
      using calculateLevel_loop_level_ge [of l t' n a] by simp
  qed
qed

lemma level_calculateLevel:
  "level (calculateLevel t) = fst (calculateLevel_loop t 1 (xpForLevel 1) 0)"
  by (simp add: calculateLevel_def split: prod.splits)

lemma calculateLevel_mono:
  "t \<le> t' \<Longrightarrow> level (calculateLevel t) \<le> level (calculateLevel t')"
  by (simp add: level_calculateLevel calculateLevel_loop_mono)

lemma calculateLevel_loop_iterations:
  "fst (calculateLevel_loop t l n a) = l + int (calculateLevel_iterations t l n a)"
proof (induction t l n a rule: calculateLevel_loop.induct)
  case (1 t l n a)
  show ?case
  proof (cases "a + n \<le> t")
    case True
    with "1.IH" show ?thesis
      by (subst calculateLevel_loop.simps, subst calculateLevel_iterations.simps) simp
  next
    case False
    then show ?thesis
      by (subst calculateLevel_loop.simps, subst calculateLevel_iterations.simps) simp
  qed
qed

lemma calculateLevel_iterations_bound:
  "1 \<le> l \<Longrightarrow> 100 \<le> n \<Longrightarrow> a \<le> t \<Longrightarrow>
     100 * int (calculateLevel_iterations t l n a) \<le> t - a"
proof (induction t l n a rule: calculateLevel_iterations.induct)
  case (1 t l n a)
  show ?case
  proof (cases "a + n \<le> t")
    case True
    have "100 \<le> xpForLevel (l + 1)"
      using "1.prems" by (intro xpForLevel_ge_100) simp
    with "1.IH" True "1.prems"
    have "100 * int (calculateLevel_iterations t (l + 1) (xpForLevel (l + 1)) (a + n)) \<le> t - (a + n)"
      by simp
    with True "1.prems" show ?thesis
      by (subst calculateLevel_iterations.simps) simp
  next
    case False
    with "1.prems" show ?thesis
      by (subst calculateLevel_iterations.simps) simp
  qed
qed

lemma xpForLevel_1: "xpForLevel 1 = 100"
  by (simp add: xpForLevel_def)

lemma xpForLevel_2: "xpForLevel 2 = 150"
  by (simp add: xpForLevel_def)

lemma xpForLevel_3: "xpForLevel 3 = 225"
  by (simp add: xpForLevel_def)

lemma xp_totals_sorted_levels:
  "\<forall>a\<in>set awards. 0 \<le> a \<Longrightarrow>
     sorted (map (\<lambda>t. level (calculateLevel t)) (xp_totals x awards))
     \<and> (\<forall>t\<in>set (xp_totals x awards). x \<le> t)"
proof (induction awards arbitrary: x)
  case Nil
  show ?case by simp
next
  case (Cons a awards)
  then have ih: "sorted (map (\<lambda>t. level (calculateLevel t)) (xp_totals (x + a) awards))"
    and ge: "\<forall>t\<in>set (xp_totals (x + a) awards). x + a \<le> t" and a: "0 \<le> a"
    by simp_all
  from ge a have ge': "\<forall>t\<in>set (xp_totals (x + a) awards). x \<le> t"
    by auto
  then have "\<forall>t\<in>set (xp_totals (x + a) awards). level (calculateLevel x) \<le> level (calculateLevel t)"
    by (simp add: calculateLevel_mono)
  with ih ge' show ?case
    by simp
qed

text \<open>
  C2. With \<open>xpForLevel n\<close> the floor of \<open>100 * 1.5^(n - 1)\<close>, the level that
  \<open>calculateLevel\<close> computes never decreases along the running totals of a sequence of
  non-negative awards, whatever the starting total; and the total
  \<open>xpForLevel 1 + xpForLevel 2\<close> is exactly level 3, with nothing left over in the level
  (the next tier being \<open>xpForLevel 3\<close>).
\<close>

theorem calculateLevel_monotone_tier3:
  assumes "\<forall>a\<in>set awards. 0 \<le> a"
  shows "sorted (map (\<lambda>t. level (calculateLevel t)) (xp_totals x awards))
     \<and> calculateLevel (xpForLevel 1 + xpForLevel 2) =
         \<lparr>level = 3, currentLevelXp = 0, xpToNextLevel = xpForLevel 3, totalXp = 250\<rparr>"
proof
  show "sorted (map (\<lambda>t. level (calculateLevel t)) (xp_totals x awards))"
    using xp_totals_sorted_levels [OF assms] by simp
  show "calculateLevel (xpForLevel 1 + xpForLevel 2) =
         \<lparr>level = 3, currentLevelXp = 0, xpToNextLevel = xpForLevel 3, totalXp = 250\<rparr>"
    by (simp add: calculateLevel_def calculateLevel_loop.simps xpForLevel_1 xpForLevel_2 xpForLevel_3)
qed

theorem calculateLevel_monotone_tier3_witness:
  "map (\<lambda>t. level (calculateLevel t)) (xp_totals 0 [100, 0, 150, 7]) = [1, 2, 2, 3, 3]
   \<and> sorted (map (\<lambda>t. level (calculateLevel t)) (xp_totals 0 [100, 0, 150, 7]))
   \<and> calculateLevel (xpForLevel 1 + xpForLevel 2) =
         \<lparr>level = 3, currentLevelXp = 0, xpToNextLevel = xpForLevel 3, totalXp = 250\<rparr>"
proof -
  have h: "\<forall>a\<in>set [100, 0, 150, 7 :: int]. 0 \<le> a"
    by simp
  have v: "map (\<lambda>t. level (calculateLevel t)) (xp_totals 0 [100, 0, 150, 7]) = [1, 2, 2, 3, 3]"
    by (simp add: calculateLevel_def calculateLevel_loop.simps xpForLevel_1 xpForLevel_2 xpForLevel_3)
  show ?thesis
    using h v calculateLevel_monotone_tier3 [OF h, of 0] by simp
qed

text \<open>
  C10. \<open>calculateLevel\<close> is a total function: its loop is defined by well-founded
  recursion. Every tier from level 1 on is at least 100, the level returned is one more
  than the number of times the loop body ran, and for a non-negative total that number
  is at most \<open>totalXp div 100 + 1\<close>.
\<close>

theorem calculateLevel_iterations_bounded:
  assumes "0 \<le> t"
  shows "(\<forall>l\<ge>1. 100 \<le> xpForLevel l)
     \<and> int (calculateLevel_iterations t 1 (xpForLevel 1) 0) \<le> t div 100 + 1
     \<and> level (calculateLevel t) = 1 + int (calculateLevel_iterations t 1 (xpForLevel 1) 0)"
proof -
  have "100 * int (calculateLevel_iterations t 1 (xpForLevel 1) 0) \<le> t - 0"
    using assms by (intro calculateLevel_iterations_bound) (simp_all add: xpForLevel_1)
  then have "int (calculateLevel_iterations t 1 (xpForLevel 1) 0) \<le> t div 100"
    by simp
  then show ?thesis
    by (simp add: xpForLevel_ge_100 level_calculateLevel calculateLevel_loop_iterations)
qed

theorem calculateLevel_iterations_bounded_witness:
  "100 \<le> xpForLevel 3
   \<and> calculateLevel_iterations 250 1 (xpForLevel 1) 0 = 2
   \<and> int (calculateLevel_iterations 250 1 (xpForLevel 1) 0) \<le> 250 div 100 + 1
   \<and> level (calculateLevel 250) = 1 + int (calculateLevel_iterations 250 1 (xpForLevel 1) 0)"
proof -
  have h: "(0::int) \<le> 250"
    by simp
  have v: "calculateLevel_iterations 250 1 (xpForLevel 1) 0 = 2"
    by (simp add: calculateLevel_iterations.simps xpForLevel_1 xpForLevel_2 xpForLevel_3)
  show ?thesis
    using h v calculateLevel_iterations_bounded [OF h] by simp
qed

section \<open>How the helpers of the store act on a character\<close>

lemma find_map_id:
  assumes "\<And>c. key (g c) = key c"
  shows "find (\<lambda>c. key c = k) (map g cs) = map_option g (find (\<lambda>c. key c = k) cs)"
  using assms by (induction cs) simp_all

lemma find_Some_holds: "find P xs = Some x \<Longrightarrow> P x"
  by (induction xs) (simp_all split: if_splits)

lemma get_char_Some_id: "get_char st k = Some c \<Longrightarrow> c_id c = k"
  unfolding get_char_def by (rule find_Some_holds [where P = "\<lambda>c. c_id c = k"])

lemma get_char_update_char:
  assumes "\<And>c. c_id (f c) = c_id c"
  shows "get_char (update_char cid f st) k
       = (if k = cid then map_option f (get_char st k) else get_char st k)"
proof -
  let ?g = "\<lambda>c. if c_id c = cid then f c else c"
  have g: "\<And>c. c_id (?g c) = c_id c"
    by (simp add: assms)
  have "get_char (update_char cid f st) k = map_option ?g (get_char st k)"
    unfolding get_char_def update_char_def using find_map_id [of c_id ?g k "characters st", OF g]
    by simp
  also have "\<dots> = (if k = cid then map_option f (get_char st k) else get_char st k)"
  proof (cases "get_char st k")
    case None
    then show ?thesis by auto
  next
    case (Some c)
    then have "c_id c = k" by (rule get_char_Some_id)
    with Some show ?thesis by auto
  qed
  finally show ?thesis .
qed

lemma get_char_insert_log [simp]: "get_char (insert_log t i a m st) k = get_char st k"
  by (simp add: get_char_def insert_log_def)

lemma get_char_broadcast [simp]: "get_char (broadcast e st) k = get_char st k"
  by (simp add: get_char_def broadcast_def)

lemma get_char_insert_conversation [simp]:
  "get_char (insert_conversation t a b m st) k = get_char st k"
  by (simp add: get_char_def insert_conversation_def)

lemma get_char_insert_memory [simp]: "get_char (insert_memory a t m st) k = get_char st k"
  by (simp add: get_char_def insert_memory_def)

lemma characters_upsert_relationship [simp]:
  "characters (upsert_relationship a b t n cd st) = characters st"
  by (cases "find_rel st a b") (simp_all add: upsert_relationship_def)

lemma get_char_upsert_relationship [simp]:
  "get_char (upsert_relationship a b t n cd st) k = get_char st k"
  by (simp add: get_char_def)

lemma world_update_char [simp]: "world (update_char cid f st) = world st"
  by (simp add: update_char_def)

lemma world_insert_log [simp]: "world (insert_log t i a m st) = world st"
  by (simp add: insert_log_def)

lemma world_broadcast [simp]: "world (broadcast e st) = world st"
  by (simp add: broadcast_def)


lemma map_option_get_char_update_char:
  assumes "\<And>c. c_id (f c) = c_id c"
  shows "map_option F (get_char (update_char cid f st) k)
       = (if k = cid then map_option (\<lambda>c. F (f c)) (get_char st k) else map_option F (get_char st k))"
  by (simp add: get_char_update_char [OF assms] option.map_comp comp_def)

lemma authenticate_get_char:
  assumes "distinct (map c_id (characters st))" and "authenticate st charId token = Some me"
  shows "get_char st charId = Some me"
proof -
  from assms(2) have me: "me \<in> set (characters st)" "c_id me = charId"
    unfolding authenticate_def by (auto simp: find_Some_iff in_set_conv_nth)
  have "\<And>cs. distinct (map c_id cs) \<Longrightarrow> me \<in> set cs \<Longrightarrow> find (\<lambda>c. c_id c = c_id me) cs = Some me"
  proof -
    fix cs show "distinct (map c_id cs) \<Longrightarrow> me \<in> set cs \<Longrightarrow> find (\<lambda>c. c_id c = c_id me) cs = Some me"
      by (induction cs) auto
  qed
  with assms(1) me show ?thesis
    by (simp add: get_char_def)
qed








lemma digit_value_digit_char: "d < 10 \<Longrightarrow> digit_value (digit_char d) = d"
proof -
  assume "d < 10"
  then have "d \<in> {0, 1, 2, 3, 4, 5, 6, 7, 8, 9}"
    by auto
  then show ?thesis
    by (auto simp: digit_value_def digit_char_def)
qed

lemma read_nat_snoc: "read_nat (s @ [c]) = 10 * read_nat s + digit_value c"
  by (simp add: read_nat_def)

lemma read_nat_show_nat [simp]: "read_nat (show_nat n) = n"
proof (induction n rule: show_nat.induct)
  case (1 n)
  show ?case
  proof (cases "n < 10")
    case True
    then show ?thesis
      by (subst show_nat.simps) (simp add: read_nat_def digit_value_digit_char)
  next
    case False
    with 1 have "read_nat (show_nat (n div 10)) = n div 10"
      by simp
    with False show ?thesis
      by (subst show_nat.simps) (simp add: read_nat_snoc digit_value_digit_char)
  qed
qed

lemma to_number_pg_int8 [simp]: "to_number (pg_int8 n) = int n"
  by (simp add: pg_int8_def)

lemma to_int8_pg_int8 [simp]: "to_int8 (pg_int8 n) = n"
  by (simp add: to_int8_def)

lemma canAct_iff:
  "get_char st charId = Some c \<Longrightarrow>
     canAct st charId \<longleftrightarrow> int (w_tick (world st)) - int (c_last_action_tick c) \<ge> c_turn_interval c"
  by (simp add: canAct_def js_minus_def)

lemma map_option_get_char_updateLastAction:
  assumes "\<And>c t s. F (c\<lparr>c_last_action_tick := t, c_last_seen_at := s\<rparr>) = F c"
  shows "map_option F (get_char (updateLastAction st' charId now) k) = map_option F (get_char st' k)"
  by (simp add: updateLastAction_def map_option_get_char_update_char assms)


lemma ex_state_pk: "distinct (map c_id (characters ex_state))"
  by (simp add: ex_state_def ex_ada_def ex_bob_def)

lemma ex_auth_ada: "authenticate ex_state ''ada-1'' ''ta'' = Some ex_ada"
  by (simp add: authenticate_def ex_state_def ex_ada_def)

lemma ex_get_ada: "get_char ex_state ''ada-1'' = Some ex_ada"
  by (simp add: get_char_def ex_state_def ex_ada_def)

lemma ex_canAct_ada: "canAct ex_state ''ada-1''"
  by (simp add: canAct_iff [OF ex_get_ada]) (simp add: ex_state_def ex_world_def ex_ada_def)


section \<open>The world clock\<close>

lemma characters_insert_log [simp]: "characters (insert_log t i a m st) = characters st"
  by (simp add: insert_log_def)

lemma characters_broadcast [simp]: "characters (broadcast e st) = characters st"
  by (simp add: broadcast_def)

lemma characters_decay_exchanges [simp]: "characters (decay_exchanges st) = characters st"
  by (simp add: decay_exchanges_def)

lemma world_regenerate_energy [simp]: "world (regenerate_energy t st) = world st"
  by (simp add: regenerate_energy_def)

lemma world_decay_exchanges [simp]: "world (decay_exchanges st) = world st"
  by (simp add: decay_exchanges_def)

lemma js_rem_tick:
  "0 < n \<Longrightarrow> js_rem (pg_int8 t) (int n) = Some 0 \<longleftrightarrow> t mod n = 0"
proof -
  assume "0 < n"
  have "int t mod int n = 0 \<longleftrightarrow> t mod n = 0"
    by (metis of_nat_mod of_nat_eq_0_iff)
  with \<open>0 < n\<close> show ?thesis
    by (simp add: js_rem_def)
qed

lemma js_rem_tick_10 [simp]: "js_rem (pg_int8 t) 10 = Some 0 \<longleftrightarrow> t mod 10 = 0"
  using js_rem_tick [of 10 t] by simp

lemma js_rem_tick_50 [simp]: "js_rem (pg_int8 t) 50 = Some 0 \<longleftrightarrow> t mod 50 = 0"
  using js_rem_tick [of 50 t] by simp

lemma js_rem_tick_100 [simp]: "js_rem (pg_int8 t) 100 = Some 0 \<longleftrightarrow> t mod 100 = 0"
  using js_rem_tick [of 100 t] by simp





section \<open>The life story\<close>

lemma slice_last_id: "length xs \<le> n \<Longrightarrow> slice_last n xs = xs"
  by (simp add: slice_last_def)

lemma length_slice_last: "length (slice_last n xs) = min n (length xs)"
  by (simp add: slice_last_def)

lemma pushed_moments_slice:
  "pushed_moments me tick mom category now =
     slice_last 50 (coalesce (c_significant_moments me) [] @
       [\<lparr>m_tick = tick, m_category = category, m_moment = mom, m_timestamp = now\<rparr>])"
  by (simp add: pushed_moments_def Let_def slice_last_id)

lemma length_pushed_moments: "length (pushed_moments me tick mom category now) \<le> 50"
  by (simp add: pushed_moments_slice length_slice_last)

lemma length_summarised_lifeStory:
  "length (coalesce (c_life_story me) []) \<le> 5000 \<Longrightarrow>
     length (summarised_lifeStory me tick moments) \<le> 5000"
  by (simp add: summarised_lifeStory_def Let_def length_slice_last)

lemma characters_addSignificantMoment:
  "characters (addSignificantMoment st charId mom category now) =
     (case get_char st charId of
        None \<Rightarrow> characters st
      | Some me \<Rightarrow>
          map (\<lambda>c. if c_id c = charId
                   then c\<lparr>c_significant_moments :=
                            Some (pushed_moments me (pg_int8 (w_tick (world st))) mom category now),
                          c_life_story :=
                            Some (summarised_lifeStory me (pg_int8 (w_tick (world st)))
                                    (pushed_moments me (pg_int8 (w_tick (world st))) mom category now))\<rparr>
                   else c) (characters st))"
  by (simp add: addSignificantMoment_def Let_def update_char_def split: option.splits)

lemma get_char_Some_mem: "get_char st k = Some c \<Longrightarrow> c \<in> set (characters st)"
  unfolding get_char_def by (auto simp: find_Some_iff)

lemma addSignificantMoment_keeps_caps:
  assumes "\<forall>c\<in>set (characters st). story_within_caps c"
  shows "\<forall>c\<in>set (characters (addSignificantMoment st charId mom category now)). story_within_caps c"
proof (cases "get_char st charId")
  case None
  with assms show ?thesis
    by (simp add: characters_addSignificantMoment)
next
  case (Some me)
  then have "me \<in> set (characters st)"
    by (rule get_char_Some_mem)
  with assms have "length (coalesce (c_life_story me) []) \<le> 5000"
    by (simp add: story_within_caps_def)
  then have "length (summarised_lifeStory me tick ms) \<le> 5000" for tick ms
    by (rule length_summarised_lifeStory)
  with assms Some show ?thesis
    by (auto simp: characters_addSignificantMoment story_within_caps_def coalesce_def
          length_pushed_moments)
qed

lemma add_moments_keep_caps:
  "\<forall>c\<in>set (characters st). story_within_caps c \<Longrightarrow>
     \<forall>st'\<in>set (add_moments st calls). \<forall>c\<in>set (characters st'). story_within_caps c"
proof (induction calls arbitrary: st)
  case Nil
  show ?case by simp
next
  case (Cons call calls)
  obtain charId mom category now where call: "call = (charId, mom, category, now)"
    by (cases call) auto
  have step: "\<forall>c\<in>set (characters (addSignificantMoment st charId mom category now)). story_within_caps c"
    using Cons.prems by (rule addSignificantMoment_keeps_caps)
  from Cons.IH [OF step] step show ?case
    by (simp add: call)
qed

lemma moments_after_addSignificantMoment:
  assumes "get_char st charId = Some me"
  shows "map_option c_significant_moments (get_char (addSignificantMoment st charId mom category now) charId)
       = Some (Some (slice_last 50 (coalesce (c_significant_moments me) [] @
           [\<lparr>m_tick = pg_int8 (w_tick (world st)), m_category = category, m_moment = mom,
             m_timestamp = now\<rparr>])))"
  using assms
  by (simp add: addSignificantMoment_def Let_def map_option_get_char_update_char pushed_moments_slice)

lemma moments_after_addSignificantMoment_drop:
  assumes "get_char st charId = Some me"
  shows "map_option c_significant_moments (get_char (addSignificantMoment st charId mom category now) charId)
       = Some (Some (drop (length (case c_significant_moments me of None \<Rightarrow> [] | Some ms \<Rightarrow> ms) + 1 - 50)
           ((case c_significant_moments me of None \<Rightarrow> [] | Some ms \<Rightarrow> ms) @
           [\<lparr>m_tick = pg_int8 (w_tick (world st)), m_category = category, m_moment = mom,
             m_timestamp = now\<rparr>])))"
  using moments_after_addSignificantMoment [OF assms, of mom category now]
  by (simp add: slice_last_def coalesce_def)

lemma story_within_caps_fields:
  "story_within_caps c \<longleftrightarrow>
     (\<forall>ms. c_significant_moments c = Some ms \<longrightarrow> length ms \<le> 50)
     \<and> (\<forall>s. c_life_story c = Some s \<longrightarrow> length s \<le> 5000)"
  by (simp add: story_within_caps_def coalesce_def split: option.splits)

lemma add_moments_keep_caps_fields:
  assumes "\<forall>c\<in>set (characters st). story_within_caps c"
  shows "\<forall>st'\<in>set (add_moments st calls). \<forall>c\<in>set (characters st').
          (\<forall>ms. c_significant_moments c = Some ms \<longrightarrow> length ms \<le> 50)
          \<and> (\<forall>s. c_life_story c = Some s \<longrightarrow> length s \<le> 5000)"
  using add_moments_keep_caps [OF assms, of calls] by (simp add: story_within_caps_fields)

text \<open>
  C7. Starting from characters whose stored moments are at most 50 and whose life story
  is at most 5000 long, as they are when registered (both empty), every character is
  within these two caps after each call of any sequence of calls of
  \<open>addSignificantMoment\<close>: a stored list of moments has at most 50 entries and a stored
  life story at most 5000 units. A call for a character of the table stores the old
  moments followed by the new one, without the first \<open>n + 1 - 50\<close> of them when there
  were \<open>n\<close>: the oldest go first and the order of insertion stays.
\<close>

theorem moments_and_life_story_capped:
  assumes "\<forall>c\<in>set (characters st). story_within_caps c"
  shows "(\<forall>st'\<in>set (add_moments st calls). \<forall>c\<in>set (characters st'). story_within_caps c)
     \<and> (\<forall>st'\<in>set (add_moments st calls). \<forall>c\<in>set (characters st').
          (\<forall>ms. c_significant_moments c = Some ms \<longrightarrow> length ms \<le> 50)
          \<and> (\<forall>s. c_life_story c = Some s \<longrightarrow> length s \<le> 5000))
     \<and> (\<forall>me. find (\<lambda>c. c_id c = charId) (characters st) = Some me \<longrightarrow>
          map_option c_significant_moments
            (find (\<lambda>c. c_id c = charId)
               (characters (addSignificantMoment st charId mom category now)))
          = Some (Some
              (drop (length (case c_significant_moments me of None \<Rightarrow> [] | Some ms \<Rightarrow> ms) + 1 - 50)
                 ((case c_significant_moments me of None \<Rightarrow> [] | Some ms \<Rightarrow> ms) @
                  [\<lparr>m_tick = pg_int8 (w_tick (world st)), m_category = category, m_moment = mom,
                    m_timestamp = now\<rparr>]))))"
  using add_moments_keep_caps [OF assms, of calls] add_moments_keep_caps_fields [OF assms, of calls]
    moments_after_addSignificantMoment_drop [of st charId _ mom category now]
  unfolding get_char_def by blast

lemma ex_veteran_caps: "\<forall>c\<in>set (characters ex_veteran). story_within_caps c"
  by (simp add: ex_veteran_def ex_veteran_ada_def ex_state_def ex_ada_def ex_bob_def story_within_caps_def coalesce_def)

lemma ex_get_veteran: "get_char ex_veteran ''ada-1'' = Some ex_veteran_ada"
  by (simp add: get_char_def ex_veteran_def ex_veteran_ada_def ex_state_def ex_ada_def)

lemma ex_veteran_tick: "pg_int8 (w_tick (world ex_veteran)) = JStr ''150''"
  by (simp add: ex_veteran_def ex_state_def ex_world_def pg_int8_def show_nat.simps digit_char_def)

lemma ex_veteran_moments: "c_significant_moments ex_veteran_ada = Some (map ex_moment [1..<51])"
  by (simp add: ex_veteran_ada_def)

lemma ex_veteran_pushed:
  "pushed_moments ex_veteran_ada (JStr ''150'') (first_meeting ''Bob'') ''social''
     ''2026-01-01T00:12:30.000Z'' = map ex_moment [2..<51] @ [ex_met_bob]"
  by code_simp

lemma ex_veteran_summary:
  "[CHR 0x0A, CHR 0x0A] @ ''[After '' @ to_string (JStr ''150'') @ '' ticks] ''
     @ join ''. '' (map m_moment (slice_last 10 (map ex_moment [2..<51] @ [ex_met_bob])))
   = ex_summary"
  by code_simp

lemma ex_summary_length: "length ex_summary = 145"
  by code_simp

lemma ex_veteran_story:
  "summarised_lifeStory ex_veteran_ada (JStr ''150'') (map ex_moment [2..<51] @ [ex_met_bob])
     = replicate 3855 CHR ''x'' @ ex_summary"
proof -
  have "length (map ex_moment [2..<51] @ [ex_met_bob]) mod 10 = 0"
    by simp
  moreover have "coalesce (c_life_story ex_veteran_ada) [] = replicate 4990 CHR ''x''"
    by (simp add: ex_veteran_ada_def coalesce_def)
  moreover have "drop (4990 + 145 - 4000) (replicate 4990 CHR ''x'' @ ex_summary)
      = replicate 3855 CHR ''x'' @ ex_summary"
    by (simp add: ex_summary_length)
  ultimately show ?thesis
    unfolding summarised_lifeStory_def Let_def
    using ex_veteran_summary
    by (simp add: slice_last_def ex_summary_length)
qed

lemma fields_after_addSignificantMoment:
  assumes "get_char st charId = Some me"
  shows "map_option (\<lambda>c. (c_significant_moments c, c_life_story c))
     (find (\<lambda>c. c_id c = charId) (characters (addSignificantMoment st charId mom category now)))
   = Some (Some (pushed_moments me (pg_int8 (w_tick (world st))) mom category now),
           Some (summarised_lifeStory me (pg_int8 (w_tick (world st)))
                   (pushed_moments me (pg_int8 (w_tick (world st))) mom category now)))"
  using assms
  by (simp add: addSignificantMoment_def Let_def map_option_get_char_update_char flip: get_char_def)

lemma ex_veteran_after:
  "map_option (\<lambda>c. (c_significant_moments c, c_life_story c))
     (find (\<lambda>c. c_id c = ''ada-1'')
        (characters (addSignificantMoment ex_veteran ''ada-1'' (first_meeting ''Bob'') ''social''
           ''2026-01-01T00:12:30.000Z'')))
   = Some (Some (map ex_moment [2..<51] @ [ex_met_bob]), Some (replicate 3855 CHR ''x'' @ ex_summary))"
  unfolding fields_after_addSignificantMoment [OF ex_get_veteran] ex_veteran_tick ex_veteran_pushed
    ex_veteran_story ..

lemma ex_veteran_oldest_dropped:
  "drop (length (map ex_moment [1..<51]) + 1 - 50) (map ex_moment [1..<51] @ [ex_met_bob])
     = map ex_moment [2..<51] @ [ex_met_bob]"
  by code_simp

lemma ex_veteran_new_moment:
  "\<lparr>m_tick = pg_int8 (w_tick (world ex_veteran)), m_category = ''social'',
    m_moment = first_meeting ''Bob'', m_timestamp = ''2026-01-01T00:12:30.000Z''\<rparr> = ex_met_bob"
  by (simp add: ex_veteran_tick first_meeting_def ex_met_bob_def)

theorem moments_and_life_story_capped_witness:
  "list_all (\<lambda>st'. list_all story_within_caps (characters st')) (add_moments ex_veteran ex_calls)
   \<and> map_option c_significant_moments (find (\<lambda>c. c_id c = ''ada-1'') (characters ex_veteran))
       = Some (Some (map ex_moment [1..<51]))
   \<and> map_option c_significant_moments
        (find (\<lambda>c. c_id c = ''ada-1'')
           (characters (addSignificantMoment ex_veteran ''ada-1'' (first_meeting ''Bob'') ''social''
              ''2026-01-01T00:12:30.000Z'')))
       = Some (Some (map ex_moment [2..<51] @ [ex_met_bob]))
   \<and> map_option c_life_story (find (\<lambda>c. c_id c = ''ada-1'') (characters ex_veteran))
       = Some (Some (replicate 4990 CHR ''x''))
   \<and> map_option c_life_story
        (find (\<lambda>c. c_id c = ''ada-1'')
           (characters (addSignificantMoment ex_veteran ''ada-1'' (first_meeting ''Bob'') ''social''
              ''2026-01-01T00:12:30.000Z'')))
       = Some (Some (replicate 3855 CHR ''x'' @ ex_summary))
   \<and> length (replicate 3855 CHR ''x'' @ ex_summary) = 4000"
proof -
  note capped = moments_and_life_story_capped [OF ex_veteran_caps, of ex_calls "''ada-1''"
      "first_meeting ''Bob''" "''social''" "''2026-01-01T00:12:30.000Z''"]
  have found: "find (\<lambda>c. c_id c = ''ada-1'') (characters ex_veteran) = Some ex_veteran_ada"
    using ex_get_veteran by (simp add: get_char_def)
  from capped have "list_all (\<lambda>st'. list_all story_within_caps (characters st'))
      (add_moments ex_veteran ex_calls)"
    by (simp add: list_all_iff)
  moreover from capped found have "map_option c_significant_moments
        (find (\<lambda>c. c_id c = ''ada-1'')
           (characters (addSignificantMoment ex_veteran ''ada-1'' (first_meeting ''Bob'') ''social''
              ''2026-01-01T00:12:30.000Z'')))
       = Some (Some
           (drop (length (case c_significant_moments ex_veteran_ada of None \<Rightarrow> [] | Some ms \<Rightarrow> ms) + 1 - 50)
              ((case c_significant_moments ex_veteran_ada of None \<Rightarrow> [] | Some ms \<Rightarrow> ms) @
               [\<lparr>m_tick = pg_int8 (w_tick (world ex_veteran)), m_category = ''social'',
                 m_moment = first_meeting ''Bob'', m_timestamp = ''2026-01-01T00:12:30.000Z''\<rparr>])))"
    by blast
  then have "map_option c_significant_moments
        (find (\<lambda>c. c_id c = ''ada-1'')
           (characters (addSignificantMoment ex_veteran ''ada-1'' (first_meeting ''Bob'') ''social''
              ''2026-01-01T00:12:30.000Z'')))
       = Some (Some (map ex_moment [2..<51] @ [ex_met_bob]))"
    unfolding ex_veteran_new_moment ex_veteran_moments option.case ex_veteran_oldest_dropped .
  moreover have "map_option c_life_story
        (find (\<lambda>c. c_id c = ''ada-1'')
           (characters (addSignificantMoment ex_veteran ''ada-1'' (first_meeting ''Bob'') ''social''
              ''2026-01-01T00:12:30.000Z'')))
       = Some (Some (replicate 3855 CHR ''x'' @ ex_summary))"
    using ex_veteran_after by (simp add: option.map_comp comp_def map_option_case split: option.splits)
  moreover have "map_option c_significant_moments (find (\<lambda>c. c_id c = ''ada-1'') (characters ex_veteran))
       = Some (Some (map ex_moment [1..<51]))"
    "map_option c_life_story (find (\<lambda>c. c_id c = ''ada-1'') (characters ex_veteran))
       = Some (Some (replicate 4990 CHR ''x''))"
    unfolding found by (simp_all add: ex_veteran_ada_def del: upt_Suc)
  moreover have "length (replicate 3855 CHR ''x'' @ ex_summary) = 4000"
    by (simp add: ex_summary_length)
  ultimately show ?thesis
    by blast
qed

section \<open>The listener of a talk\<close>

lemma first_least_None [simp]: "first_least d xs = None \<longleftrightarrow> xs = []"
  by (induction xs) (simp_all split: option.splits)














lemma authenticate_Some_id: "authenticate st charId token = Some me \<Longrightarrow> c_id me = charId"
  unfolding authenticate_def by (drule find_Some_holds) simp

lemma authenticate_Some_mem: "authenticate st charId token = Some me \<Longrightarrow> me \<in> set (characters st)"
  unfolding authenticate_def by (auto simp: find_Some_iff)








section \<open>The talk and its rewards\<close>

lemma get_char_addSignificantMoment_proj:
  assumes "\<And>c m s. F (c\<lparr>c_significant_moments := m, c_life_story := s\<rparr>) = F c"
  shows "map_option F (get_char (addSignificantMoment st cid mom category now) k)
       = map_option F (get_char st k)"
  by (cases "get_char st cid")
     (simp_all add: addSignificantMoment_def Let_def map_option_get_char_update_char assms)

lemma get_char_addSignificantMoment_other:
  "k \<noteq> cid \<Longrightarrow> get_char (addSignificantMoment st cid mom category now) k = get_char st k"
  by (cases "get_char st cid")
     (simp_all add: addSignificantMoment_def Let_def get_char_update_char)

lemma xp_after_awardXp:
  "map_option c_xp (get_char (fst (awardXp st cid a)) cid)
     = map_option (\<lambda>c. c_xp c + a) (get_char st cid)"
  by (cases "get_char st cid")
     (simp_all add: awardXp_def Let_def get_char_update_char)

lemma snd_awardXp:
  "get_char st cid = Some c \<Longrightarrow> map_option xpGained (snd (awardXp st cid a)) = Some a"
  by (simp add: awardXp_def Let_def)

lemma world_addSignificantMoment [simp]:
  "world (addSignificantMoment st cid mom category now) = world st"
  by (cases "get_char st cid") (simp_all add: addSignificantMoment_def Let_def)

lemma world_upsert_relationship [simp]: "world (upsert_relationship a b t n cd st) = world st"
  by (cases "find_rel st a b") (simp_all add: upsert_relationship_def)

lemma world_insert_conversation [simp]: "world (insert_conversation t a b m st) = world st"
  by (simp add: insert_conversation_def)

lemma world_insert_memory [simp]: "world (insert_memory a t m st) = world st"
  by (simp add: insert_memory_def)

lemma find_rel_update_char [simp]: "find_rel (update_char cid f st) a b = find_rel st a b"
  by (simp add: find_rel_def update_char_def)

lemma find_rel_insert_log [simp]: "find_rel (insert_log t i act m st) a b = find_rel st a b"
  by (simp add: find_rel_def insert_log_def)

lemma find_rel_broadcast [simp]: "find_rel (broadcast e st) a b = find_rel st a b"
  by (simp add: find_rel_def broadcast_def)

lemma find_rel_insert_conversation [simp]:
  "find_rel (insert_conversation t x y m st) a b = find_rel st a b"
  by (simp add: find_rel_def insert_conversation_def)

lemma find_rel_insert_memory [simp]: "find_rel (insert_memory x t m st) a b = find_rel st a b"
  by (simp add: find_rel_def insert_memory_def)

lemma find_rel_addSignificantMoment [simp]:
  "find_rel (addSignificantMoment st cid mom category now) a b = find_rel st a b"
  by (cases "get_char st cid") (simp_all add: addSignificantMoment_def Let_def)

lemma find_rel_awardXp [simp]: "find_rel (fst (awardXp st cid amt)) a b = find_rel st a b"
  by (cases "get_char st cid") (simp_all add: awardXp_def Let_def)

lemma find_rel_updateLastAction [simp]: "find_rel (updateLastAction st cid now) a b = find_rel st a b"
  by (simp add: updateLastAction_def)

lemma find_map_pred:
  assumes "\<And>x. P (g x) = P x"
  shows "find P (map g xs) = map_option g (find P xs)"
  using assms by (induction xs) simp_all

lemma find_snoc:
  "find P (xs @ [x]) = (case find P xs of None \<Rightarrow> if P x then Some x else None | Some y \<Rightarrow> Some y)"
  by (induction xs) simp_all

lemma find_rel_upsert_relationship:
  "find_rel (upsert_relationship a b t n cd st) a b =
     Some (case find_rel st a b of
             None \<Rightarrow>
               \<lparr>r_char1_id = a, r_char2_id = b, r_sentiment = 5, r_interactions = 1,
                r_first_met_tick = to_int8 t, r_last_interaction_tick = to_int8 t,
                r_recent_exchanges = Some 1, r_cooldown_until_tick = Some 0\<rparr>
           | Some r \<Rightarrow>
               r\<lparr>r_interactions := r_interactions r + 1,
                 r_sentiment := min 100 (r_sentiment r + 1),
                 r_last_interaction_tick := to_int8 t,
                 r_recent_exchanges := Some n,
                 r_cooldown_until_tick := Some (to_int8 cd)\<rparr>)"
proof (cases "find_rel st a b")
  case None
  then show ?thesis
    by (simp add: upsert_relationship_def) (simp add: find_rel_def find_snoc)
next
  case (Some r)
  let ?g = "\<lambda>r. if r_char1_id r = a \<and> r_char2_id r = b
                then r\<lparr>r_interactions := r_interactions r + 1,
                       r_sentiment := min 100 (r_sentiment r + 1),
                       r_last_interaction_tick := to_int8 t,
                       r_recent_exchanges := Some n,
                       r_cooldown_until_tick := Some (to_int8 cd)\<rparr>
                else r"
  have "find (\<lambda>r. r_char1_id r = a \<and> r_char2_id r = b) (map ?g (relationships st))
      = map_option ?g (find (\<lambda>r. r_char1_id r = a \<and> r_char2_id r = b) (relationships st))"
    by (rule find_map_pred) simp
  moreover from Some have "r_char1_id r = a \<and> r_char2_id r = b"
    unfolding find_rel_def by (rule find_Some_holds)
  ultimately show ?thesis
    using Some by (simp add: upsert_relationship_def) (simp add: find_rel_def)
qed

lemma find_rel_upsert_relationship_other:
  assumes "a' \<noteq> a \<or> b' \<noteq> b"
  shows "find_rel (upsert_relationship a b t n cd st) a' b' = find_rel st a' b'"
proof (cases "find_rel st a b")
  case None
  with assms show ?thesis
    by (simp add: upsert_relationship_def) (auto simp: find_rel_def find_snoc split: option.splits)
next
  case (Some r)
  let ?g = "\<lambda>r. if r_char1_id r = a \<and> r_char2_id r = b
                then r\<lparr>r_interactions := r_interactions r + 1,
                       r_sentiment := min 100 (r_sentiment r + 1),
                       r_last_interaction_tick := to_int8 t,
                       r_recent_exchanges := Some n,
                       r_cooldown_until_tick := Some (to_int8 cd)\<rparr>
                else r"
  have m: "find (\<lambda>r. r_char1_id r = a' \<and> r_char2_id r = b') (map ?g (relationships st))
      = map_option ?g (find (\<lambda>r. r_char1_id r = a' \<and> r_char2_id r = b') (relationships st))"
    by (rule find_map_pred) simp
  have "map_option ?g (find (\<lambda>r. r_char1_id r = a' \<and> r_char2_id r = b') (relationships st))
      = find (\<lambda>r. r_char1_id r = a' \<and> r_char2_id r = b') (relationships st)"
  proof (cases "find (\<lambda>r. r_char1_id r = a' \<and> r_char2_id r = b') (relationships st)")
    case None
    then show ?thesis by simp
  next
    case (Some r')
    then have "r_char1_id r' = a' \<and> r_char2_id r' = b'"
      by (rule find_Some_holds)
    with assms Some show ?thesis by auto
  qed
  with m Some show ?thesis
    by (simp add: upsert_relationship_def) (simp add: find_rel_def)
qed

lemma find_rel_decay_exchanges_None [simp]:
  "find_rel (decay_exchanges st) a b = None \<longleftrightarrow> find_rel st a b = None"
proof -
  let ?g = "\<lambda>r. case r_recent_exchanges r of
                    None \<Rightarrow> r
                  | Some n \<Rightarrow> if n > 0 then r\<lparr>r_recent_exchanges := Some (max 0 (n - 3))\<rparr> else r"
  have "find (\<lambda>r. r_char1_id r = a \<and> r_char2_id r = b) (map ?g (relationships st))
      = map_option ?g (find (\<lambda>r. r_char1_id r = a \<and> r_char2_id r = b) (relationships st))"
    by (rule find_map_pred) (simp split: option.splits)
  then show ?thesis
    by (simp add: decay_exchanges_def find_rel_def)
qed

lemma get_char_addSignificantMoment_None [simp]:
  "get_char (addSignificantMoment st cid mom category now) k = None \<longleftrightarrow> get_char st k = None"
  using get_char_addSignificantMoment_proj [of "\<lambda>c. ()" st cid mom category now k]
  by (metis option.map_disc_iff)

lemma talk_xpReward_nonneg: "0 \<le> talk_xpReward first n"
  by (simp add: talk_xpReward_def XP_REWARDS_first_meeting_def XP_REWARDS_talk_def)

lemma snd_talk_records [simp]:
  "snd (talk_records st me l tick text n now) = (find_rel st (c_id me) (c_id l) = None)"
  by (simp add: talk_records_def Let_def)

lemma get_char_talk_records_None [simp]:
  "get_char (fst (talk_records st me l tick text n now)) k = None \<longleftrightarrow> get_char st k = None"
  by (simp add: talk_records_def Let_def get_char_update_char)

lemma xp_talk_records:
  "map_option c_xp (get_char (fst (talk_records st me l tick text n now)) k)
     = map_option c_xp (get_char st k)"
  by (simp add: talk_records_def Let_def get_char_addSignificantMoment_proj
        map_option_get_char_update_char)

lemma world_talk_records [simp]: "world (fst (talk_records st me l tick text n now)) = world st"
  by (simp add: talk_records_def Let_def)

lemma find_rel_talk_records:
  "find_rel (fst (talk_records st me l tick text n now)) a b =
     (if a = c_id me \<and> b = c_id l
      then Some (case find_rel st (c_id me) (c_id l) of
             None \<Rightarrow>
               \<lparr>r_char1_id = c_id me, r_char2_id = c_id l, r_sentiment = 5, r_interactions = 1,
                r_first_met_tick = to_int8 tick, r_last_interaction_tick = to_int8 tick,
                r_recent_exchanges = Some 1, r_cooldown_until_tick = Some 0\<rparr>
           | Some r \<Rightarrow>
               r\<lparr>r_interactions := r_interactions r + 1,
                 r_sentiment := min 100 (r_sentiment r + 1),
                 r_last_interaction_tick := to_int8 tick,
                 r_recent_exchanges := Some n,
                 r_cooldown_until_tick := Some (to_int8 (talk_newCooldown tick n))\<rparr>)
      else find_rel st a b)"
  by (simp add: talk_records_def Let_def find_rel_upsert_relationship
        find_rel_upsert_relationship_other)

lemma xp_talk_effects:
  "map_option c_xp (get_char (fst (talk_effects st me l tick text now)) (c_id me))
     = map_option (\<lambda>c. c_xp c + talk_xpReward (find_rel st (c_id me) (c_id l) = None)
                                  (talk_recentExchanges st (c_id me) (c_id l) + 1))
         (get_char st (c_id me))"
proof -
  let ?n = "talk_recentExchanges st (c_id me) (c_id l) + 1"
  let ?r = "talk_xpReward (find_rel st (c_id me) (c_id l) = None) ?n"
  let ?st6 = "fst (talk_records st me l tick text ?n now)"
  show ?thesis
  proof (cases "?r > 0")
    case True
    then have "map_option c_xp (get_char (fst (talk_effects st me l tick text now)) (c_id me))
        = map_option c_xp (get_char (fst (awardXp ?st6 (c_id me) ?r)) (c_id me))"
      by (simp add: talk_effects_def Let_def)
    also have "\<dots> = map_option (\<lambda>c. c_xp c + ?r) (get_char ?st6 (c_id me))"
      by (rule xp_after_awardXp)
    also have "\<dots> = map_option (\<lambda>c. c_xp c + ?r) (get_char st (c_id me))"
      using xp_talk_records [of st me l tick "text" "?n" now "c_id me"]
      by (cases "get_char ?st6 (c_id me)"; cases "get_char st (c_id me)") simp_all
    finally show ?thesis .
  next
    case False
    with talk_xpReward_nonneg [of "find_rel st (c_id me) (c_id l) = None" "?n"] have z: "?r = 0"
      by simp
    from False have "map_option c_xp (get_char (fst (talk_effects st me l tick text now)) (c_id me))
        = map_option c_xp (get_char ?st6 (c_id me))"
      by (simp add: talk_effects_def Let_def)
    also have "\<dots> = map_option c_xp (get_char st (c_id me))"
      by (rule xp_talk_records)
    finally show ?thesis
      using z by simp
  qed
qed

lemma snd_talk_effects:
  assumes "get_char st (c_id me) \<noteq> None"
  shows "\<exists>res. snd (talk_effects st me l tick text now) = Talked res
     \<and> t_listener res = c_name l
     \<and> t_exchangeCount res = talk_recentExchanges st (c_id me) (c_id l) + 1
     \<and> map_option xpGained (t_xp res)
         = Some (talk_xpReward (find_rel st (c_id me) (c_id l) = None)
                   (talk_recentExchanges st (c_id me) (c_id l) + 1))"
proof -
  let ?n = "talk_recentExchanges st (c_id me) (c_id l) + 1"
  let ?r = "talk_xpReward (find_rel st (c_id me) (c_id l) = None) ?n"
  let ?st6 = "fst (talk_records st me l tick text ?n now)"
  from assms obtain c where c: "get_char ?st6 (c_id me) = Some c"
    by (cases "get_char ?st6 (c_id me)") simp_all
  show ?thesis
  proof (cases "?r > 0")
    case True
    then show ?thesis
      using snd_awardXp [OF c, of "?r"] by (simp add: talk_effects_def Let_def)
  next
    case False
    with talk_xpReward_nonneg [of "find_rel st (c_id me) (c_id l) = None" "?n"] have "?r = 0"
      by simp
    with False show ?thesis
      by (simp add: talk_effects_def Let_def)
  qed
qed

lemma action_talk_full:
  "action_talk st me tick message now =
     (if message = None \<or> message = Some [] then (st, Inl MessageRequired)
      else if num_or (c_energy me) 100 < 3 then (st, Inl (InsufficientEnergy (num_or (c_energy me) 100)))
      else case nearby_listener st (c_id me) (c_x me) (c_y me) of
             None \<Rightarrow> (st, Inl NoTargetNearby)
           | Some l \<Rightarrow>
               if js_gt (talk_cooldownUntil st (c_id me) (c_id l)) tick
               then (st, Inl (ConversationCooldown (js_minus (talk_cooldownUntil st (c_id me) (c_id l)) tick)))
               else (fst (talk_effects st me l tick (coalesce message []) now),
                     Inr (snd (talk_effects st me l tick (coalesce message []) now))))"
  by (simp add: action_talk_def Let_def split: option.splits)

lemma submit_action_talk:
  assumes "authenticate st charId token = Some me" "canAct st charId" "q_action req = Some ''talk''"
  shows "submit_action st charId token req now =
     (case snd (action_talk st me (pg_int8 (w_tick (world st))) (q_message req) now) of
        Inl r \<Rightarrow> (fst (action_talk st me (pg_int8 (w_tick (world st))) (q_message req) now), Rejected r)
      | Inr out \<Rightarrow>
          (updateLastAction (fst (action_talk st me (pg_int8 (w_tick (world st))) (q_message req) now))
             charId now, Accepted out))"
  using assms by (simp add: submit_action_def Let_def)

lemma submit_action_talked:
  assumes auth: "authenticate st charId token = Some me" and gate: "canAct st charId"
    and act: "q_action req = Some ''talk''"
    and ok: "snd (submit_action st charId token req now) = Accepted (Talked res)"
  shows "\<exists>l. nearby_listener st charId (c_x me) (c_y me) = Some l
     \<and> \<not> js_gt (talk_cooldownUntil st charId (c_id l)) (pg_int8 (w_tick (world st)))
     \<and> snd (talk_effects st me l (pg_int8 (w_tick (world st))) (coalesce (q_message req) []) now)
         = Talked res
     \<and> fst (submit_action st charId token req now)
         = updateLastAction
             (fst (talk_effects st me l (pg_int8 (w_tick (world st))) (coalesce (q_message req) []) now))
             charId now"
proof -
  have id: "c_id me = charId"
    using auth by (rule authenticate_Some_id)
  note sub = submit_action_talk [OF auth gate act, of now]
  show ?thesis
  proof (cases "nearby_listener st charId (c_x me) (c_y me)")
    case None
    with ok show ?thesis
      by (simp add: sub action_talk_full id split: if_splits)
  next
    case (Some l)
    with ok show ?thesis
      by (simp add: sub action_talk_full id split: if_splits)
  qed
qed

lemma find_rel_talk_effects:
  "find_rel (fst (talk_effects st me l tick text now)) a b
     = find_rel (fst (talk_records st me l tick text
                   (talk_recentExchanges st (c_id me) (c_id l) + 1) now)) a b"
  by (simp add: talk_effects_def Let_def)

lemma recent_exchanges_talk_effects:
  "map_option r_recent_exchanges (find_rel (fst (talk_effects st me l tick text now)) (c_id me) (c_id l))
     = Some (Some (talk_recentExchanges st (c_id me) (c_id l) + 1))"
  by (cases "find_rel st (c_id me) (c_id l)")
     (simp_all add: find_rel_talk_effects find_rel_talk_records talk_recentExchanges_def)

lemma authenticate_get_char_not_None:
  "authenticate st charId token = Some me \<Longrightarrow> get_char st charId \<noteq> None"
proof -
  assume a: "authenticate st charId token = Some me"
  then have "me \<in> set (characters st)" "c_id me = charId"
    by (simp_all add: authenticate_Some_mem authenticate_Some_id)
  then show ?thesis
    unfolding get_char_def by (auto simp: find_None_iff)
qed

lemma talk_recentExchanges_row:
  "talk_recentExchanges st a b =
     (case find (\<lambda>r. r_char1_id r = a \<and> r_char2_id r = b) (relationships st) of
        None \<Rightarrow> 0
      | Some r \<Rightarrow> (case r_recent_exchanges r of None \<Rightarrow> 0 | Some n \<Rightarrow> n))"
  by (simp add: talk_recentExchanges_def find_rel_def num_or_def split: option.splits)

text \<open>
  C4. When a talk from A is accepted with listener B in the server with energy, the
  exchange count reported, and stored in the row of the ordered pair, is one more than
  the count of recent exchanges in the row of the pair before the talk (one when there
  is no row, or no count in it), and the experience of A grows by a reward that depends
  on this count alone: 5 when it is at most 5, 2 when it is 6 to 10, and 0 beyond 10;
  except that a talk between a pair with no relationship row yet, a first meeting, is
  rewarded with 20 whatever the count.
\<close>

theorem talk_xp_follows_schedule:
  assumes pk: "distinct (map c_id (characters st))"
    and auth: "authenticate st charId token = Some me"
    and gate: "canAct st charId"
    and act: "q_action req = Some ''talk''"
    and ok: "submit_action st charId token req now = (st', Accepted (Talked res))"
  shows "\<exists>l. nearby_listener st charId (c_x me) (c_y me) = Some l
     \<and> t_exchangeCount res =
         (case find (\<lambda>r. r_char1_id r = charId \<and> r_char2_id r = c_id l) (relationships st) of
            None \<Rightarrow> 0
          | Some r \<Rightarrow> (case r_recent_exchanges r of None \<Rightarrow> 0 | Some n \<Rightarrow> n)) + 1
     \<and> map_option r_recent_exchanges
          (find (\<lambda>r. r_char1_id r = charId \<and> r_char2_id r = c_id l) (relationships st'))
         = Some (Some (t_exchangeCount res))
     \<and> map_option xpGained (t_xp res)
         = Some (if find (\<lambda>r. r_char1_id r = charId \<and> r_char2_id r = c_id l) (relationships st) = None
                 then 20
                 else if t_exchangeCount res \<le> 5 then 5
                 else if t_exchangeCount res \<le> 10 then 2 else 0)
     \<and> map_option c_xp (find (\<lambda>c. c_id c = charId) (characters st'))
         = Some (c_xp me +
             (if find (\<lambda>r. r_char1_id r = charId \<and> r_char2_id r = c_id l) (relationships st) = None
              then 20
              else if t_exchangeCount res \<le> 5 then 5
              else if t_exchangeCount res \<le> 10 then 2 else 0))"
proof -
  have id: "c_id me = charId"
    using auth by (rule authenticate_Some_id)
  have me: "get_char st charId = Some me"
    using pk auth by (rule authenticate_get_char)
  let ?tick = "pg_int8 (w_tick (world st))"
  let ?text = "coalesce (q_message req) []"
  from ok have ok': "snd (submit_action st charId token req now) = Accepted (Talked res)"
    and st': "st' = fst (submit_action st charId token req now)"
    by simp_all
  from submit_action_talked [OF auth gate act ok'] obtain l where
    l: "nearby_listener st charId (c_x me) (c_y me) = Some l"
    and res: "snd (talk_effects st me l ?tick ?text now) = Talked res"
    and fst: "st' = updateLastAction (fst (talk_effects st me l ?tick ?text now)) charId now"
    unfolding st' by blast
  let ?n = "talk_recentExchanges st charId (c_id l) + 1"
  let ?reward = "talk_xpReward (find_rel st charId (c_id l) = None) ?n"
  from snd_talk_effects [of st me l ?tick ?text now] me res
  have n: "t_exchangeCount res = ?n" and x: "map_option xpGained (t_xp res) = Some ?reward"
    by (auto simp: id)
  have r: "map_option r_recent_exchanges (find_rel st' charId (c_id l)) = Some (Some ?n)"
    using recent_exchanges_talk_effects [of st me l ?tick ?text now] by (simp add: fst id)
  have "map_option c_xp (get_char st' charId)
      = map_option c_xp (get_char (fst (talk_effects st me l ?tick ?text now)) charId)"
    unfolding fst by (rule map_option_get_char_updateLastAction) simp
  also have "\<dots> = Some (c_xp me + ?reward)"
    using xp_talk_effects [of st me l ?tick ?text now] me by (simp add: id)
  finally have xp: "map_option c_xp (get_char st' charId) = Some (c_xp me + ?reward)" .
  have reward: "?reward = (if find_rel st charId (c_id l) = None then 20
                 else if t_exchangeCount res \<le> 5 then 5
                 else if t_exchangeCount res \<le> 10 then 2 else 0)"
    by (simp add: talk_xpReward_def n XP_REWARDS_first_meeting_def XP_REWARDS_talk_def)
  have n': "t_exchangeCount res =
         (case find (\<lambda>r. r_char1_id r = charId \<and> r_char2_id r = c_id l) (relationships st) of
            None \<Rightarrow> 0
          | Some r \<Rightarrow> (case r_recent_exchanges r of None \<Rightarrow> 0 | Some n \<Rightarrow> n)) + 1"
    using n unfolding talk_recentExchanges_row .
  have r': "map_option r_recent_exchanges
          (find (\<lambda>r. r_char1_id r = charId \<and> r_char2_id r = c_id l) (relationships st'))
         = Some (Some (t_exchangeCount res))"
    using r unfolding find_rel_def n .
  note x' = x [unfolded reward, unfolded find_rel_def]
  note xp' = xp [unfolded reward, unfolded find_rel_def get_char_def]
  show ?thesis
    by (intro exI [of _ l] conjI) (rule l n' r' x' xp')+
qed

lemma ex_nearby_bob: "nearby_listener ex_state ''ada-1'' (c_x ex_ada) (c_y ex_ada) = Some ex_bob"
  by code_simp

lemma ex_known_pk: "distinct (map c_id (characters (ex_known n)))"
  by (simp add: ex_known_def ex_state_def ex_ada_def ex_bob_def)

lemma ex_known_auth_ada: "authenticate (ex_known n) ''ada-1'' ''ta'' = Some ex_ada"
  by (simp add: authenticate_def ex_known_def ex_state_def ex_ada_def)

lemma ex_known_get_ada: "get_char (ex_known n) ''ada-1'' = Some ex_ada"
  by (simp add: get_char_def ex_known_def ex_state_def ex_ada_def)

lemma ex_known_canAct_ada: "canAct (ex_known n) ''ada-1''"
  by (simp add: canAct_iff [OF ex_known_get_ada])
     (simp add: ex_known_def ex_state_def ex_world_def ex_ada_def)


lemma ex_known_nearby_bob:
  "nearby_listener (ex_known n) ''ada-1'' (c_x ex_ada) (c_y ex_ada) = Some ex_bob"
  using ex_nearby_bob by (simp add: nearby_listener_def ex_known_def)

lemma ex_known_row:
  "find (\<lambda>r. r_char1_id r = ''ada-1'' \<and> r_char2_id r = ''bob-2'') (relationships (ex_known n))
     = Some \<lparr>r_char1_id = ''ada-1'', r_char2_id = ''bob-2'', r_sentiment = 45, r_interactions = 40,
         r_first_met_tick = 100, r_last_interaction_tick = 140, r_recent_exchanges = n,
         r_cooldown_until_tick = Some 0\<rparr>"
  by (simp add: ex_known_def)

lemma ex_state_no_row:
  "find (\<lambda>r. r_char1_id r = ''ada-1'' \<and> r_char2_id r = ''bob-2'') (relationships ex_state) = None"
  by (simp add: ex_state_def)

lemma ex_talk_first:
  "snd (submit_action ex_state ''ada-1'' ''ta'' ex_talk ''2026-01-01T00:12:30.000Z'')
     = ex_talked (Some (NotLeveledUp 20
         \<lparr>level = 1, currentLevelXp = 20, xpToNextLevel = 100, totalXp = 20\<rparr>)) 1 None 14"
  by code_simp

lemma ex_talk_null:
  "snd (submit_action (ex_known None) ''ada-1'' ''ta'' ex_talk ''2026-01-01T00:12:30.000Z'')
     = ex_talked (Some (NotLeveledUp 5
         \<lparr>level = 1, currentLevelXp = 5, xpToNextLevel = 100, totalXp = 5\<rparr>)) 1 None 14"
  by code_simp

lemma ex_talk_5th:
  "snd (submit_action (ex_known (Some 4)) ''ada-1'' ''ta'' ex_talk ''2026-01-01T00:12:30.000Z'')
     = ex_talked (Some (NotLeveledUp 5
         \<lparr>level = 1, currentLevelXp = 5, xpToNextLevel = 100, totalXp = 5\<rparr>)) 5 None 10"
  by code_simp

lemma ex_talk_6th:
  "snd (submit_action (ex_known (Some 5)) ''ada-1'' ''ta'' ex_talk ''2026-01-01T00:12:30.000Z'')
     = ex_talked (Some (NotLeveledUp 2
         \<lparr>level = 1, currentLevelXp = 2, xpToNextLevel = 100, totalXp = 2\<rparr>)) 6 None 9"
  by code_simp

lemma ex_talk_10th:
  "snd (submit_action (ex_known (Some 9)) ''ada-1'' ''ta'' ex_talk ''2026-01-01T00:12:30.000Z'')
     = ex_talked (Some (NotLeveledUp 2
         \<lparr>level = 1, currentLevelXp = 2, xpToNextLevel = 100, totalXp = 2\<rparr>)) 10
         (Some ''Conversation getting long. XP rewards diminishing.'') 5"
  by code_simp

lemma ex_talk_11th:
  "snd (submit_action (ex_known (Some 10)) ''ada-1'' ''ta'' ex_talk ''2026-01-01T00:12:30.000Z'')
     = ex_talked (Some NoXp) 11 (Some ''Conversation getting long. XP rewards diminishing.'') 4"
  by code_simp

lemma submit_action_accepted_pair: "snd (submit_action st charId token req now) = Accepted (Talked res) \<Longrightarrow>
    submit_action st charId token req now
      = (fst (submit_action st charId token req now), Accepted (Talked res))"
  by (simp add: prod_eq_iff)

theorem talk_xp_follows_schedule_witness:
  "map (\<lambda>st. (map_option r_recent_exchanges
                  (find (\<lambda>r. r_char1_id r = ''ada-1'' \<and> r_char2_id r = ''bob-2'')
                     (relationships (fst (submit_action st ''ada-1'' ''ta'' ex_talk
                        ''2026-01-01T00:12:30.000Z'')))),
                map_option c_xp
                  (find (\<lambda>c. c_id c = ''ada-1'')
                     (characters (fst (submit_action st ''ada-1'' ''ta'' ex_talk
                        ''2026-01-01T00:12:30.000Z''))))))
     [ex_state, ex_known None, ex_known (Some 4), ex_known (Some 5), ex_known (Some 9),
      ex_known (Some 10)]
   = [(Some (Some 1), Some 20), (Some (Some 1), Some 5), (Some (Some 5), Some 5),
      (Some (Some 6), Some 2), (Some (Some 10), Some 2), (Some (Some 11), Some 0)]"
proof -
  have act: "q_action ex_talk = Some ''talk''"
    by (simp add: ex_talk_def)
  have xp0: "c_xp ex_ada = 0" and bob: "c_id ex_bob = ''bob-2''"
    by (simp_all add: ex_ada_def ex_bob_def)
  note facts = ex_nearby_bob ex_known_nearby_bob ex_known_row ex_state_no_row xp0 bob
  note known = talk_xp_follows_schedule [OF ex_known_pk ex_known_auth_ada ex_known_canAct_ada act]
  from talk_xp_follows_schedule [OF ex_state_pk ex_auth_ada ex_canAct_ada act
      submit_action_accepted_pair [OF ex_talk_first [unfolded ex_talked_def]]]
  have 1: "map_option r_recent_exchanges
        (find (\<lambda>r. r_char1_id r = ''ada-1'' \<and> r_char2_id r = ''bob-2'')
           (relationships (fst (submit_action ex_state ''ada-1'' ''ta'' ex_talk
              ''2026-01-01T00:12:30.000Z'')))) = Some (Some 1)
      \<and> map_option c_xp
        (find (\<lambda>c. c_id c = ''ada-1'')
           (characters (fst (submit_action ex_state ''ada-1'' ''ta'' ex_talk
              ''2026-01-01T00:12:30.000Z'')))) = Some 20"
    by (auto simp: facts)
  have k: "map_option r_recent_exchanges
        (find (\<lambda>r. r_char1_id r = ''ada-1'' \<and> r_char2_id r = ''bob-2'')
           (relationships (fst (submit_action (ex_known n) ''ada-1'' ''ta'' ex_talk
              ''2026-01-01T00:12:30.000Z'')))) = Some (Some c)
      \<and> map_option c_xp
        (find (\<lambda>c. c_id c = ''ada-1'')
           (characters (fst (submit_action (ex_known n) ''ada-1'' ''ta'' ex_talk
              ''2026-01-01T00:12:30.000Z'')))) = Some (if c \<le> 5 then 5 else if c \<le> 10 then 2 else 0)"
    if "snd (submit_action (ex_known n) ''ada-1'' ''ta'' ex_talk ''2026-01-01T00:12:30.000Z'')
         = ex_talked xp c w d" for n xp c w d
    using known [OF submit_action_accepted_pair [OF that [unfolded ex_talked_def]]]
    by (auto simp: facts)
  show ?thesis
    using 1 k [OF ex_talk_null] k [OF ex_talk_5th] k [OF ex_talk_6th] k [OF ex_talk_10th]
      k [OF ex_talk_11th]
    by simp
qed

end
